theory Spec2Isabelle
  imports Complex_Main
begin

section \<open>Data model\<close>

text \<open>
  The persisted schema (\<^verbatim>\<open>libs/db/schema.ts\<close>) and the services built on it
  (\<^verbatim>\<open>modules/exams\<close>, \<^verbatim>\<open>modules/scoring\<close>) are embedded over an explicit state:
  each table is the list of its rows, a \<^verbatim>\<open>findFirst\<close> is \<^const>\<open>find\<close>, an
  \<^verbatim>\<open>update ... where\<close> rewrites every matching row and an \<^verbatim>\<open>insert\<close> appends one.
  A nullable column is an \<open>option\<close>, a \<^verbatim>\<open>doublePrecision\<close> column is a \<^typ>\<open>real\<close>
  (rounding of IEEE doubles is not modelled), a timestamp is a \<^typ>\<open>nat\<close>.
  Each operation takes the value of \<^verbatim>\<open>new Date()\<close> as the argument \<open>now\<close> and the
  identifier drawn by \<^verbatim>\<open>defaultRandom()\<close> as the argument \<open>newId\<close>. A thrown error is
  the \<open>Inl\<close> branch of the result. Calls to the logger are left out.

  Each operation runs to its end without interleaving with another one. Of the checks
  of the database engine, the domain of the \<^verbatim>\<open>exam_status\<close> enum is enforced where the
  code writes that column; foreign keys and primary keys are not enforced by the tables
  here, and where a statement needs distinct primary keys it says so. An operation that
  ends in \<open>Inl\<close> has written nothing: every throw modelled here comes before the first
  write of its operation.
\<close>

type_synonym uuid = string
type_synonym timestamp = nat

text \<open>
  A JavaScript string whose content the code inspects (an answer text, an answer key) is
  the sequence of its UTF-16 code units, each a natural number.
\<close>

type_synonym js_string = "nat list"

datatype exam_status = DRAFT | ONGOING | FINISHED | PUBLISHED
datatype question_type = PG | ESSAY
datatype answer_status = PENDING | SCORED

text \<open>
  The error classes of \<^verbatim>\<open>middlewares/error.middleware.ts\<close>, each with the argument its
  constructor is given. \<open>DatabaseError\<close> is the error the database driver throws when a
  statement is refused, and \<open>UnexpectedError\<close> stands for any other exception
  (a \<^verbatim>\<open>TypeError\<close> on a missing joined row).
\<close>

datatype app_error =
    NotFoundError string
  | ForbiddenError string
  | BadRequestError string
  | DatabaseError
  | UnexpectedError

text \<open>
  \<^verbatim>\<open>pgEnum("exam_status", ["DRAFT", "ONGOING", "FINISHED"])\<close>: the values the column
  \<^verbatim>\<open>exams.status\<close> accepts. The type of the service layer has a fourth one, PUBLISHED.
\<close>

definition examStatusEnum :: "exam_status list" where
  "examStatusEnum = [DRAFT, ONGOING, FINISHED]"

record settings =
  enableProctoring :: "bool option"

record exam =
  exam_id :: uuid
  exam_teacherId :: uuid
  exam_title :: string
  exam_startTime :: "timestamp option"
  exam_endTime :: "timestamp option"
  exam_status :: exam_status
  exam_settings :: "settings option"
  exam_updatedAt :: timestamp

record question =
  question_id :: uuid
  question_teacherId :: uuid
  question_type :: question_type
  question_text :: string
  answerKey :: "js_string option"
  rubric :: "(string \<times> real) list option"

record exam_question =
  eq_examId :: uuid
  eq_questionId :: uuid
  eq_order :: "int option"
  eq_points :: "real option"

record exam_participant =
  participant_id :: uuid
  participant_examId :: uuid
  participant_studentId :: uuid
  proctoringSessionId :: "string option"
  participant_startTime :: "timestamp option"
  submitTime :: "timestamp option"
  score :: "real option"
  participant_status :: "string option"

text \<open>
  The \<^verbatim>\<open>feedback\<close> column is text; the scoring pipeline stores
  \<^verbatim>\<open>JSON.stringify\<close> of an object there and a teacher's override stores a plain string.
  The stringified objects are kept structured.
\<close>

record scoring_result =
  sr_score :: real
  sr_total_points :: real
  sr_max_points :: real
  sr_rubric_breakdown :: "(string \<times> real) list"
  sr_overall :: string
  sr_strengths :: "string list"
  sr_improvements :: "string list"

datatype feedback =
    FeedbackText string
  | FeedbackJson string "string list" "string list"
  | FeedbackScored scoring_result "string option"

record answer =
  answer_id :: uuid
  answer_participantId :: uuid
  answer_questionId :: uuid
  answerText :: "js_string option"
  answerFileUrl :: "string option"
  aiScore :: "real option"
  finalScore :: "real option"
  answer_feedback :: "feedback option"
  answer_status :: answer_status
  answer_updatedAt :: timestamp

record exam_statistic =
  stat_examId :: uuid
  avgScore :: "real option"
  maxScore :: "real option"
  minScore :: "real option"
  totalParticipants :: "int option"
  submittedCount :: "int option"
  scoredCount :: "int option"
  suspiciousCount :: "int option"
  stat_updatedAt :: timestamp

datatype job_status = Pending | Processing | Done | Failed

record scoring_job =
  job_examId :: uuid
  job_participantId :: uuid
  job_status :: job_status
  job_createdAt :: timestamp
  job_completedAt :: "timestamp option"
  job_error :: "string option"

datatype broadcast = ExamStart uuid | ExamEnd uuid

text \<open>
  The tables, the in-memory \<^verbatim>\<open>scoringQueue\<close> (a \<^verbatim>\<open>Map\<close> keyed by participant id, kept
  as an association list in insertion order) and the log of emitted broadcasts.
\<close>

record state =
  exams :: "exam list"
  questions :: "question list"
  examQuestions :: "exam_question list"
  examParticipants :: "exam_participant list"
  answers :: "answer list"
  examStatistics :: "exam_statistic list"
  scoringQueue :: "(uuid \<times> scoring_job) list"
  broadcasts :: "broadcast list"

section \<open>Repository (\<^verbatim>\<open>exams.repository.ts\<close>)\<close>

definition findExamById :: "state \<Rightarrow> uuid \<Rightarrow> exam option" where
  "findExamById s i = find (\<lambda>e. exam_id e = i) (exams s)"

definition findExamByIdAndTeacher :: "state \<Rightarrow> uuid \<Rightarrow> uuid \<Rightarrow> exam option" where
  "findExamByIdAndTeacher s i t =
     find (\<lambda>e. exam_id e = i \<and> exam_teacherId e = t) (exams s)"

text \<open>
  \<^verbatim>\<open>Partial<Exam>\<close> as the services use it: a field that is \<open>None\<close> is absent from the
  object and keeps the column.
\<close>

record exam_patch =
  set_status :: "exam_status option"
  set_startTime :: "timestamp option"
  set_endTime :: "timestamp option"

definition apply_exam_patch :: "exam_patch \<Rightarrow> timestamp \<Rightarrow> exam \<Rightarrow> exam" where
  "apply_exam_patch d now e =
     e\<lparr> exam_status := (case set_status d of None \<Rightarrow> exam_status e | Some v \<Rightarrow> v),
        exam_startTime := (case set_startTime d of None \<Rightarrow> exam_startTime e | Some v \<Rightarrow> Some v),
        exam_endTime := (case set_endTime d of None \<Rightarrow> exam_endTime e | Some v \<Rightarrow> Some v),
        exam_updatedAt := now \<rparr>"

text \<open>
  \<open>updateExam\<close> sends the new status as a value of the enum \<^verbatim>\<open>exam_status\<close>. A status
  outside \<^const>\<open>examStatusEnum\<close> is refused by the database before any row is touched
  and the driver throws; otherwise every row with the id is rewritten and the first of
  them is returned.
\<close>

definition updateExam ::
  "state \<Rightarrow> uuid \<Rightarrow> exam_patch \<Rightarrow> timestamp \<Rightarrow> app_error + (state \<times> exam option)" where
  "updateExam s i d now =
     (if (case set_status d of None \<Rightarrow> False | Some v \<Rightarrow> v \<notin> set examStatusEnum)
      then Inl DatabaseError
      else
        let rows = map (\<lambda>e. if exam_id e = i then apply_exam_patch d now e else e) (exams s)
        in Inr (s\<lparr>exams := rows\<rparr>, find (\<lambda>e. exam_id e = i) rows))"

text \<open>\<^verbatim>\<open>orderBy asc(order)\<close>: an insertion sort on the nullable column, nulls last.\<close>

definition order_le :: "int option \<Rightarrow> int option \<Rightarrow> bool" where
  "order_le a b =
     (case b of None \<Rightarrow> True | Some y \<Rightarrow> (case a of None \<Rightarrow> False | Some x \<Rightarrow> x \<le> y))"

fun insert_by_order :: "exam_question \<Rightarrow> exam_question list \<Rightarrow> exam_question list" where
  "insert_by_order q [] = [q]"
| "insert_by_order q (r # rs) =
     (if order_le (eq_order q) (eq_order r) then q # r # rs else r # insert_by_order q rs)"

definition getExamQuestions :: "state \<Rightarrow> uuid \<Rightarrow> exam_question list" where
  "getExamQuestions s i =
     foldr insert_by_order (filter (\<lambda>q. eq_examId q = i) (examQuestions s)) []"

definition findParticipant :: "state \<Rightarrow> uuid \<Rightarrow> uuid \<Rightarrow> exam_participant option" where
  "findParticipant s e u =
     find (\<lambda>p. participant_examId p = e \<and> participant_studentId p = u) (examParticipants s)"

definition findParticipantById :: "state \<Rightarrow> uuid \<Rightarrow> exam_participant option" where
  "findParticipantById s i = find (\<lambda>p. participant_id p = i) (examParticipants s)"


record participant_patch =
  set_submitTime :: "timestamp option"
  set_score :: "real option"
  set_participant_status :: "string option"

definition apply_participant_patch :: "participant_patch \<Rightarrow> exam_participant \<Rightarrow> exam_participant" where
  "apply_participant_patch d p =
     p\<lparr> submitTime := (case set_submitTime d of None \<Rightarrow> submitTime p | Some v \<Rightarrow> Some v),
        score := (case set_score d of None \<Rightarrow> score p | Some v \<Rightarrow> Some v),
        participant_status :=
          (case set_participant_status d of None \<Rightarrow> participant_status p | Some v \<Rightarrow> Some v) \<rparr>"

definition updateParticipant ::
  "state \<Rightarrow> uuid \<Rightarrow> participant_patch \<Rightarrow> state \<times> exam_participant option" where
  "updateParticipant s i d =
     (let rows = map (\<lambda>p. if participant_id p = i then apply_participant_patch d p else p)
                     (examParticipants s)
      in (s\<lparr>examParticipants := rows\<rparr>, find (\<lambda>p. participant_id p = i) rows))"

definition listParticipants :: "state \<Rightarrow> uuid \<Rightarrow> exam_participant list" where
  "listParticipants s e = filter (\<lambda>p. participant_examId p = e) (examParticipants s)"

text \<open>\<^verbatim>\<open>Partial<ExamStatistic>\<close>, with the same reading of \<open>None\<close>.\<close>

record statistic_patch =
  set_avgScore :: "real option"
  set_maxScore :: "real option"
  set_minScore :: "real option"
  set_totalParticipants :: "int option"
  set_submittedCount :: "int option"
  set_scoredCount :: "int option"
  set_suspiciousCount :: "int option"

definition keep :: "'a option \<Rightarrow> 'a option \<Rightarrow> 'a option" where
  "keep new old = (case new of None \<Rightarrow> old | Some v \<Rightarrow> Some v)"

definition apply_statistic_patch ::
  "statistic_patch \<Rightarrow> timestamp \<Rightarrow> exam_statistic \<Rightarrow> exam_statistic" where
  "apply_statistic_patch d now r =
     r\<lparr> avgScore := keep (set_avgScore d) (avgScore r),
        maxScore := keep (set_maxScore d) (maxScore r),
        minScore := keep (set_minScore d) (minScore r),
        totalParticipants := keep (set_totalParticipants d) (totalParticipants r),
        submittedCount := keep (set_submittedCount d) (submittedCount r),
        scoredCount := keep (set_scoredCount d) (scoredCount r),
        suspiciousCount := keep (set_suspiciousCount d) (suspiciousCount r),
        stat_updatedAt := now \<rparr>"

text \<open>
  The row an insert creates: columns absent from the object take the schema's default
  (null for the three scores, 0 for the four counters, \<^verbatim>\<open>defaultNow()\<close>).
\<close>

definition new_statistic :: "uuid \<Rightarrow> statistic_patch \<Rightarrow> timestamp \<Rightarrow> exam_statistic" where
  "new_statistic i d now =
     \<lparr> stat_examId = i,
       avgScore = set_avgScore d,
       maxScore = set_maxScore d,
       minScore = set_minScore d,
       totalParticipants = keep (set_totalParticipants d) (Some 0),
       submittedCount = keep (set_submittedCount d) (Some 0),
       scoredCount = keep (set_scoredCount d) (Some 0),
       suspiciousCount = keep (set_suspiciousCount d) (Some 0),
       stat_updatedAt = now \<rparr>"

definition getStatistics :: "state \<Rightarrow> uuid \<Rightarrow> exam_statistic option" where
  "getStatistics s i = find (\<lambda>r. stat_examId r = i) (examStatistics s)"

definition upsertStatistics :: "state \<Rightarrow> uuid \<Rightarrow> statistic_patch \<Rightarrow> timestamp \<Rightarrow> state" where
  "upsertStatistics s i d now =
     (case find (\<lambda>r. stat_examId r = i) (examStatistics s) of
        Some existing \<Rightarrow>
          s\<lparr>examStatistics :=
              map (\<lambda>r. if stat_examId r = i then apply_statistic_patch d now r else r)
                  (examStatistics s)\<rparr>
      | None \<Rightarrow> s\<lparr>examStatistics := examStatistics s @ [new_statistic i d now]\<rparr>)"

section \<open>Exam lifecycle (\<^verbatim>\<open>exams.service.ts\<close>)\<close>

definition validTransitions :: "exam_status \<Rightarrow> exam_status list" where
  "validTransitions st =
     (case st of
        DRAFT \<Rightarrow> [ONGOING]
      | ONGOING \<Rightarrow> [FINISHED]
      | FINISHED \<Rightarrow> [PUBLISHED, ONGOING]
      | PUBLISHED \<Rightarrow> [])"

definition status_name :: "exam_status \<Rightarrow> string" where
  "status_name st =
     (case st of DRAFT \<Rightarrow> ''DRAFT'' | ONGOING \<Rightarrow> ''ONGOING''
               | FINISHED \<Rightarrow> ''FINISHED'' | PUBLISHED \<Rightarrow> ''PUBLISHED'')"

definition zero_statistics :: statistic_patch where
  "zero_statistics =
     \<lparr> set_avgScore = Some 0, set_maxScore = Some 0, set_minScore = Some 0,
       set_totalParticipants = Some 0, set_submittedCount = Some 0,
       set_scoredCount = Some 0, set_suspiciousCount = Some 0 \<rparr>"

definition broadcastExamStart :: "state \<Rightarrow> uuid \<Rightarrow> state" where
  "broadcastExamStart s i = s\<lparr>broadcasts := broadcasts s @ [ExamStart i]\<rparr>"

definition broadcastExamEnd :: "state \<Rightarrow> uuid \<Rightarrow> state" where
  "broadcastExamEnd s i = s\<lparr>broadcasts := broadcasts s @ [ExamEnd i]\<rparr>"

text \<open>
  The part of \<^verbatim>\<open>updateExamStatus\<close> that runs only for DRAFT to ONGOING: the question
  check, the statistics row, the start broadcast.
\<close>

definition start_checks :: "state \<Rightarrow> uuid \<Rightarrow> timestamp \<Rightarrow> app_error + state" where
  "start_checks s examId now =
     (if length (getExamQuestions s examId) = 0
      then Inl (BadRequestError ''Cannot start exam without questions'')
      else Inr (broadcastExamStart (upsertStatistics s examId zero_statistics now) examId))"

definition updateExamStatus ::
  "state \<Rightarrow> uuid \<Rightarrow> uuid \<Rightarrow> exam_status \<Rightarrow> timestamp \<Rightarrow> app_error + (state \<times> exam option)" where
  "updateExamStatus s examId teacherId newStatus now =
     (case findExamByIdAndTeacher s examId teacherId of
        None \<Rightarrow> Inl (NotFoundError ''Exam'')
      | Some exam \<Rightarrow>
          if newStatus \<notin> set (validTransitions (exam_status exam))
          then Inl (BadRequestError
                 (''Cannot transition from '' @ status_name (exam_status exam)
                    @ '' to '' @ status_name newStatus))
          else
            (case (if exam_status exam = DRAFT \<and> newStatus = ONGOING
                   then start_checks s examId now else Inr s) of
               Inl err \<Rightarrow> Inl err
             | Inr s1 \<Rightarrow>
                 let s2 = (if exam_status exam = ONGOING \<and> newStatus = FINISHED
                           then broadcastExamEnd s1 examId else s1)
                 in updateExam s2 examId
                      \<lparr> set_status = Some newStatus,
                        set_startTime =
                          (if newStatus = ONGOING \<and> exam_startTime exam = None
                           then Some now else None),
                        set_endTime = (if newStatus = FINISHED then Some now else None) \<rparr>
                      now))"

definition publishExam ::
  "state \<Rightarrow> uuid \<Rightarrow> uuid \<Rightarrow> timestamp \<Rightarrow> app_error + (state \<times> exam option)" where
  "publishExam s examId teacherId now =
     (case findExamByIdAndTeacher s examId teacherId of
        None \<Rightarrow> Inl (NotFoundError ''Exam'')
      | Some exam \<Rightarrow>
          if exam_status exam \<noteq> DRAFT
          then Inl (BadRequestError ''Exam is already published'')
          else if length (getExamQuestions s examId) = 0
          then Inl (BadRequestError ''Cannot publish exam without questions'')
          else
            (case updateExam s examId
                    \<lparr> set_status = Some ONGOING,
                      set_startTime =
                        Some (case exam_startTime exam of None \<Rightarrow> now | Some t \<Rightarrow> t),
                      set_endTime = None \<rparr> now of
               Inl err \<Rightarrow> Inl err
             | Inr (s1, updated) \<Rightarrow>
                 Inr (broadcastExamStart (upsertStatistics s1 examId zero_statistics now) examId,
                      updated)))"

section \<open>Participation (\<^verbatim>\<open>exams.service.ts\<close>)\<close>

text \<open>
  A call to an external service either throws or returns. The proctoring service's
  \<^verbatim>\<open>startSession\<close> is an argument of \<open>joinExam\<close>, applied to the fields of the request.
\<close>

datatype 'a outcome = Throws | Returns 'a





text \<open>
  \<^verbatim>\<open>Partial<NewAnswer>\<close> as \<open>submitAnswer\<close> and \<open>batchSubmitAnswers\<close> build it: an
  \<^verbatim>\<open>undefined\<close> text or file url is skipped by an update and is null in an insert.
\<close>

record answer_patch =
  set_answerText :: "js_string option"
  set_answerFileUrl :: "string option"
  set_answer_status :: "answer_status option"

definition apply_answer_patch :: "answer_patch \<Rightarrow> timestamp \<Rightarrow> answer \<Rightarrow> answer" where
  "apply_answer_patch d now a =
     a\<lparr> answerText := keep (set_answerText d) (answerText a),
        answerFileUrl := keep (set_answerFileUrl d) (answerFileUrl a),
        answer_status := (case set_answer_status d of None \<Rightarrow> answer_status a | Some v \<Rightarrow> v),
        answer_updatedAt := now \<rparr>"

definition new_answer :: "uuid \<Rightarrow> uuid \<Rightarrow> uuid \<Rightarrow> answer_patch \<Rightarrow> timestamp \<Rightarrow> answer" where
  "new_answer newId participantId questionId d now =
     \<lparr> answer_id = newId,
       answer_participantId = participantId,
       answer_questionId = questionId,
       answerText = set_answerText d,
       answerFileUrl = set_answerFileUrl d,
       aiScore = None,
       finalScore = None,
       answer_feedback = None,
       answer_status = (case set_answer_status d of None \<Rightarrow> PENDING | Some v \<Rightarrow> v),
       answer_updatedAt = now \<rparr>"

definition upsertAnswer ::
  "state \<Rightarrow> uuid \<Rightarrow> uuid \<Rightarrow> answer_patch \<Rightarrow> uuid \<Rightarrow> timestamp \<Rightarrow> state \<times> answer option" where
  "upsertAnswer s participantId questionId d newId now =
     (case find (\<lambda>a. answer_participantId a = participantId \<and> answer_questionId a = questionId)
                (answers s) of
        Some existing \<Rightarrow>
          let rows = map (\<lambda>a. if answer_id a = answer_id existing
                               then apply_answer_patch d now a else a) (answers s)
          in (s\<lparr>answers := rows\<rparr>, find (\<lambda>a. answer_id a = answer_id existing) rows)
      | None \<Rightarrow>
          let created = new_answer newId participantId questionId d now
          in (s\<lparr>answers := answers s @ [created]\<rparr>, Some created))"

record submit_answer_input =
  in_questionId :: uuid
  in_answerText :: "js_string option"
  in_answerFileUrl :: "string option"

definition pending_patch :: "submit_answer_input \<Rightarrow> answer_patch" where
  "pending_patch inp =
     \<lparr> set_answerText = in_answerText inp,
       set_answerFileUrl = in_answerFileUrl inp,
       set_answer_status = Some PENDING \<rparr>"

definition submitAnswer ::
  "state \<Rightarrow> uuid \<Rightarrow> uuid \<Rightarrow> submit_answer_input \<Rightarrow> uuid \<Rightarrow> timestamp
     \<Rightarrow> app_error + (state \<times> answer option)" where
  "submitAnswer s examId studentId inp newId now =
     (case findParticipant s examId studentId of
        None \<Rightarrow> Inl (ForbiddenError ''You have not joined this exam'')
      | Some participant \<Rightarrow>
          if submitTime participant \<noteq> None
          then Inl (BadRequestError ''You have already submitted the exam'')
          else if \<not> list_ex (\<lambda>q. eq_questionId q = in_questionId inp) (getExamQuestions s examId)
          then Inl (NotFoundError ''Question not found in this exam'')
          else Inr (upsertAnswer s (participant_id participant) (in_questionId inp)
                      (pending_patch inp) newId now))"

text \<open>
  The loop of \<open>batchSubmitAnswers\<close>; the \<open>k\<close>-th answer of the batch draws the identifier
  \<open>newId k\<close> if it is inserted.
\<close>

fun batch_upsert ::
  "state \<Rightarrow> uuid \<Rightarrow> (nat \<Rightarrow> uuid) \<Rightarrow> timestamp \<Rightarrow> nat \<Rightarrow> submit_answer_input list
     \<Rightarrow> state \<times> answer option list" where
  "batch_upsert s participantId newId now k [] = (s, [])"
| "batch_upsert s participantId newId now k (inp # rest) =
     (let r = upsertAnswer s participantId (in_questionId inp) (pending_patch inp) (newId k) now;
          rs = batch_upsert (fst r) participantId newId now (Suc k) rest
      in (fst rs, snd r # snd rs))"

definition batchSubmitAnswers ::
  "state \<Rightarrow> uuid \<Rightarrow> uuid \<Rightarrow> submit_answer_input list \<Rightarrow> (nat \<Rightarrow> uuid) \<Rightarrow> timestamp
     \<Rightarrow> app_error + (state \<times> answer option list)" where
  "batchSubmitAnswers s examId studentId inps newId now =
     (case findParticipant s examId studentId of
        None \<Rightarrow> Inl (ForbiddenError ''You have not joined this exam'')
      | Some participant \<Rightarrow>
          if submitTime participant \<noteq> None
          then Inl (BadRequestError ''You have already submitted the exam'')
          else Inr (batch_upsert s (participant_id participant) newId now 0 inps))"

section \<open>Strings\<close>

text \<open>
  \<open>js\<close> writes a \<^typ>\<open>js_string\<close> as an ASCII literal. \<^verbatim>\<open>trim\<close> removes from both ends the
  code units that ECMAScript calls WhiteSpace or LineTerminator: tab, line feed, vertical
  tab, form feed, carriage return, space, U+00A0, U+1680, U+2000 to U+200A, U+2028,
  U+2029, U+202F, U+205F, U+3000 and U+FEFF. \<^verbatim>\<open>toLowerCase\<close> and \<^verbatim>\<open>toUpperCase\<close> follow
  the Unicode tables built into the JavaScript engine; the tables are not written out
  here, and the two methods are arguments of the scoring code, as a \<open>js_engine\<close>.
  A string is truthy when it is not empty.
\<close>

definition js :: "string \<Rightarrow> js_string" where
  "js t = map of_char t"

definition is_white_space :: "nat \<Rightarrow> bool" where
  "is_white_space n \<longleftrightarrow>
     n \<in> {9, 10, 11, 12, 13, 32, 160, 5760, 8232, 8233, 8239, 8287, 12288, 65279}
     \<or> (8192 \<le> n \<and> n \<le> 8202)"

definition trim :: "js_string \<Rightarrow> js_string" where
  "trim t = rev (dropWhile is_white_space (rev (dropWhile is_white_space t)))"

record js_engine =
  toLowerCase :: "js_string \<Rightarrow> js_string"
  toUpperCase :: "js_string \<Rightarrow> js_string"

definition truthy :: "'a list option \<Rightarrow> bool" where
  "truthy v = (case v of None \<Rightarrow> False | Some t \<Rightarrow> t \<noteq> [])"

section \<open>Scoring (\<^verbatim>\<open>scoring.service.ts\<close>)\<close>

text \<open>
  \<open>getParticipantAnswers\<close> returns each answer of the participant with its question
  joined; a question that is missing makes the later \<^verbatim>\<open>answer.question.type\<close> throw.
\<close>

definition getParticipantAnswers :: "state \<Rightarrow> uuid \<Rightarrow> (answer \<times> question option) list" where
  "getParticipantAnswers s participantId =
     map (\<lambda>a. (a, find (\<lambda>q. question_id q = answer_questionId a) (questions s)))
         (filter (\<lambda>a. answer_participantId a = participantId) (answers s))"

text \<open>\<^verbatim>\<open>a.finalScore || 0\<close>\<close>

definition score_or_zero :: "real option \<Rightarrow> real" where
  "score_or_zero v = (case v of None \<Rightarrow> 0 | Some x \<Rightarrow> if x = 0 then 0 else x)"

definition scored_patch :: "real \<Rightarrow> participant_patch" where
  "scored_patch avg =
     \<lparr> set_submitTime = None, set_score = Some avg, set_participant_status = Some ''SCORED'' \<rparr>"

definition recalculateParticipantScore :: "state \<Rightarrow> uuid \<Rightarrow> state" where
  "recalculateParticipantScore s participantId =
     (let participantAnswers = getParticipantAnswers s participantId;
          scoredAnswers = filter (\<lambda>(a, q). finalScore a \<noteq> None) participantAnswers
      in if length scoredAnswers = 0 then s
         else
           let totalScore = foldl (\<lambda>sum (a, q). sum + score_or_zero (finalScore a)) 0 scoredAnswers;
               averageScore = totalScore / real (length scoredAnswers)
           in fst (updateParticipant s participantId (scored_patch averageScore)))"

text \<open>
  \<^verbatim>\<open>Math.max(...scores)\<close> and \<^verbatim>\<open>Math.min(...scores)\<close> of a list that the caller has
  found non-empty, given as its head and tail.
\<close>

definition Math_max :: "real \<Rightarrow> real list \<Rightarrow> real" where
  "Math_max x xs = foldl max x xs"

definition Math_min :: "real \<Rightarrow> real list \<Rightarrow> real" where
  "Math_min x xs = foldl min x xs"

definition participant_scores :: "exam_participant list \<Rightarrow> real list" where
  "participant_scores ps = List.map_filter score ps"

definition statistics_of :: "exam_participant list \<Rightarrow> real \<Rightarrow> real list \<Rightarrow> statistic_patch" where
  "statistics_of participants x xs =
     \<lparr> set_avgScore = Some (foldl (+) 0 (x # xs) / real (length (x # xs))),
       set_maxScore = Some (Math_max x xs),
       set_minScore = Some (Math_min x xs),
       set_totalParticipants = Some (int (length participants)),
       set_submittedCount =
         Some (int (length (filter (\<lambda>p. submitTime p \<noteq> None) participants))),
       set_scoredCount = Some (int (length (x # xs))),
       set_suspiciousCount = None \<rparr>"

definition updateExamStatistics :: "state \<Rightarrow> uuid \<Rightarrow> timestamp \<Rightarrow> state" where
  "updateExamStatistics s examId now =
     (let participants = listParticipants s examId
      in case participant_scores participants of
           [] \<Rightarrow> s
         | x # xs \<Rightarrow> upsertStatistics s examId (statistics_of participants x xs) now)"

text \<open>
  The essay scorer (\<^verbatim>\<open>services/aes-scorer.service.ts\<close>) is an external service: its two
  calls are arguments of the pipeline, functions of what the call sends.
\<close>

record image_response =
  scoring_result :: "scoring_result option"
  extracted_text :: string

record aes_scorer =
  scoreText ::
    "js_string \<Rightarrow> js_string \<Rightarrow> (string \<times> real) list option \<Rightarrow> string \<Rightarrow> scoring_result outcome"
  scoreImage ::
    "string \<Rightarrow> js_string \<Rightarrow> (string \<times> real) list option \<Rightarrow> string \<Rightarrow> image_response outcome"

definition text_of :: "'a list option \<Rightarrow> 'a list" where
  "text_of v = (case v of None \<Rightarrow> [] | Some t \<Rightarrow> t)"

definition fallback_score :: "real option \<times> feedback option" where
  "fallback_score =
     (Some 50, Some (FeedbackJson ''Penilaian AI gagal, perlu review manual'' [] []))"

text \<open>The body of the inner \<^verbatim>\<open>try\<close> for an essay; \<^verbatim>\<open>catch (aiError)\<close> is \<^const>\<open>fallback_score\<close>.\<close>

definition score_essay :: "aes_scorer \<Rightarrow> answer \<Rightarrow> question \<Rightarrow> real option \<times> feedback option" where
  "score_essay scorer a q =
     (if truthy (answerFileUrl a) \<and> truthy (answerKey q) then
        (case scoreImage scorer (text_of (answerFileUrl a)) (text_of (answerKey q))
                (rubric q) (question_text q) of
           Throws \<Rightarrow> fallback_score
         | Returns imageResult \<Rightarrow>
             (case scoring_result imageResult of
                Some r \<Rightarrow>
                  (Some (sr_score r), Some (FeedbackScored r (Some (extracted_text imageResult))))
              | None \<Rightarrow>
                  (Some 0, Some (FeedbackJson ''OCR gagal mengekstrak teks dari gambar'' [] []))))
      else if truthy (answerText a) \<and> truthy (answerKey q) then
        (case scoreText scorer (text_of (answerText a)) (text_of (answerKey q))
                (rubric q) (question_text q) of
           Throws \<Rightarrow> fallback_score
         | Returns r \<Rightarrow> (Some (sr_score r), Some (FeedbackScored r None)))
      else
        (Some 0,
         Some (FeedbackJson ''Tidak ada jawaban atau kunci jawaban tidak tersedia'' [] [])))"

text \<open>
  The score and feedback the pipeline computes for one pending answer:
  \<^verbatim>\<open>(answer.answerText?.toLowerCase().trim() || "") === answerKey.toLowerCase().trim()\<close>
  for a multiple-choice question with a key, the essay scorer for an essay, and null
  for a multiple-choice question without a key.
\<close>

definition score_answer ::
  "js_engine \<Rightarrow> aes_scorer \<Rightarrow> answer \<Rightarrow> question \<Rightarrow> real option \<times> feedback option" where
  "score_answer engine scorer a q =
     (if question_type q = PG \<and> truthy (answerKey q) then
        let studentAnswer =
              (case answerText a of None \<Rightarrow> [] | Some t \<Rightarrow> trim (toLowerCase engine t));
            key = trim (toLowerCase engine (text_of (answerKey q)));
            isCorrect = (studentAnswer = key)
        in (Some (if isCorrect then 100 else 0),
            Some (FeedbackJson (if isCorrect then ''Jawaban benar'' else ''Jawaban salah'') [] []))
      else if question_type q = ESSAY then score_essay scorer a q
      else (None, None))"

definition set_answer_score ::
  "state \<Rightarrow> uuid \<Rightarrow> real option \<times> feedback option \<Rightarrow> timestamp \<Rightarrow> state" where
  "set_answer_score s answerId r now =
     s\<lparr>answers :=
         map (\<lambda>a. if answer_id a = answerId
                  then a\<lparr> aiScore := fst r, finalScore := fst r, answer_feedback := snd r,
                          answer_status := SCORED, answer_updatedAt := now \<rparr>
                  else a) (answers s)\<rparr>"

text \<open>
  The loop over the answers read at the start of a participant's job. It stops at the
  first answer whose question is missing, with the exception and the rows written so far.
\<close>

fun score_answers ::
  "js_engine \<Rightarrow> aes_scorer \<Rightarrow> timestamp \<Rightarrow> state \<Rightarrow> (answer \<times> question option) list
     \<Rightarrow> state \<times> app_error option" where
  "score_answers engine scorer now s [] = (s, None)"
| "score_answers engine scorer now s ((a, qo) # rest) =
     (if answer_status a = SCORED then score_answers engine scorer now s rest
      else case qo of
             None \<Rightarrow> (s, Some UnexpectedError)
           | Some q \<Rightarrow>
               score_answers engine scorer now
                 (set_answer_score s (answer_id a) (score_answer engine scorer a q) now) rest)"

text \<open>\<^verbatim>\<open>scoringQueue.get\<close> and the in-place mutation of the job object it returns.\<close>

definition queue_get :: "state \<Rightarrow> uuid \<Rightarrow> scoring_job option" where
  "queue_get s participantId = map_of (scoringQueue s) participantId"

definition queue_modify :: "state \<Rightarrow> uuid \<Rightarrow> (scoring_job \<Rightarrow> scoring_job) \<Rightarrow> state" where
  "queue_modify s participantId f =
     s\<lparr>scoringQueue :=
         map (\<lambda>(k, j). if k = participantId then (k, f j) else (k, j)) (scoringQueue s)\<rparr>"

text \<open>One iteration of the loop of \<open>processScoring\<close>: the job of one participant.\<close>

definition process_participant ::
  "js_engine \<Rightarrow> aes_scorer \<Rightarrow> timestamp \<Rightarrow> state \<Rightarrow> uuid \<Rightarrow> state" where
  "process_participant engine scorer now s participantId =
     (case queue_get s participantId of
        None \<Rightarrow> s
      | Some job \<Rightarrow>
          let s1 = queue_modify s participantId (\<lambda>j. j\<lparr>job_status := Processing\<rparr>);
              r = score_answers engine scorer now s1 (getParticipantAnswers s1 participantId)
          in if snd r \<noteq> None
             then queue_modify (fst r) participantId
                    (\<lambda>j. j\<lparr>job_status := Failed, job_error := Some ''TypeError''\<rparr>)
             else queue_modify (recalculateParticipantScore (fst r) participantId) participantId
                    (\<lambda>j. j\<lparr>job_status := Done, job_completedAt := Some now\<rparr>))"

definition processScoring ::
  "js_engine \<Rightarrow> aes_scorer \<Rightarrow> timestamp \<Rightarrow> state \<Rightarrow> uuid \<Rightarrow> uuid list \<Rightarrow> state" where
  "processScoring engine scorer now s examId participantIds =
     updateExamStatistics
       (foldl (process_participant engine scorer now) s participantIds) examId now"

text \<open>
  The repository holds a second revision of \<^verbatim>\<open>scoring.service.ts\<close>, without the essay
  scorer: its loop compares with \<^verbatim>\<open>toUpperCase\<close>, gives every essay the placeholder 50 and
  writes through \<open>updateAnswerScore\<close>, which leaves the feedback column alone. Its other
  functions are the ones above, word for word.
\<close>

definition score_answer_prev :: "js_engine \<Rightarrow> answer \<Rightarrow> question \<Rightarrow> real option" where
  "score_answer_prev engine a q =
     (if question_type q = PG \<and> truthy (answerKey q) then
        let isCorrect =
              (case answerText a of
                 None \<Rightarrow> False
               | Some t \<Rightarrow>
                   trim (toUpperCase engine t) = trim (toUpperCase engine (text_of (answerKey q))))
        in Some (if isCorrect then 100 else 0)
      else if question_type q = ESSAY then Some 50
      else None)"

definition updateAnswerScore ::
  "state \<Rightarrow> uuid \<Rightarrow> real option \<Rightarrow> real option \<Rightarrow> timestamp \<Rightarrow> state" where
  "updateAnswerScore s answerId ai final now =
     s\<lparr>answers :=
         map (\<lambda>a. if answer_id a = answerId
                  then a\<lparr> aiScore := ai, finalScore := final,
                          answer_status := SCORED, answer_updatedAt := now \<rparr>
                  else a) (answers s)\<rparr>"

fun score_answers_prev ::
  "js_engine \<Rightarrow> timestamp \<Rightarrow> state \<Rightarrow> (answer \<times> question option) list
     \<Rightarrow> state \<times> app_error option" where
  "score_answers_prev engine now s [] = (s, None)"
| "score_answers_prev engine now s ((a, qo) # rest) =
     (if answer_status a = SCORED then score_answers_prev engine now s rest
      else case qo of
             None \<Rightarrow> (s, Some UnexpectedError)
           | Some q \<Rightarrow>
               score_answers_prev engine now
                 (updateAnswerScore s (answer_id a)
                    (score_answer_prev engine a q) (score_answer_prev engine a q) now)
                 rest)"

definition process_participant_prev :: "js_engine \<Rightarrow> timestamp \<Rightarrow> state \<Rightarrow> uuid \<Rightarrow> state" where
  "process_participant_prev engine now s participantId =
     (case queue_get s participantId of
        None \<Rightarrow> s
      | Some job \<Rightarrow>
          let s1 = queue_modify s participantId (\<lambda>j. j\<lparr>job_status := Processing\<rparr>);
              r = score_answers_prev engine now s1 (getParticipantAnswers s1 participantId)
          in if snd r \<noteq> None
             then queue_modify (fst r) participantId
                    (\<lambda>j. j\<lparr>job_status := Failed, job_error := Some ''TypeError''\<rparr>)
             else queue_modify (recalculateParticipantScore (fst r) participantId) participantId
                    (\<lambda>j. j\<lparr>job_status := Done, job_completedAt := Some now\<rparr>))"

definition processScoring_prev ::
  "js_engine \<Rightarrow> timestamp \<Rightarrow> state \<Rightarrow> uuid \<Rightarrow> uuid list \<Rightarrow> state" where
  "processScoring_prev engine now s examId participantIds =
     updateExamStatistics
       (foldl (process_participant_prev engine now) s participantIds) examId now"

text \<open>
  \<open>triggerScoring\<close> queues one pending job per submitted participant (optionally only
  those named in the request) and starts \<open>processScoring\<close> without awaiting it: the call
  runs up to its first \<^verbatim>\<open>await\<close>, which marks the first queued job as processing, and
  the rest of it is \<^const>\<open>processScoring\<close> on the state returned here.
\<close>

definition queue_set :: "state \<Rightarrow> uuid \<Rightarrow> scoring_job \<Rightarrow> state" where
  "queue_set s participantId job =
     s\<lparr>scoringQueue :=
         (if participantId \<in> fst ` set (scoringQueue s)
          then map (\<lambda>(k, j). if k = participantId then (k, job) else (k, j)) (scoringQueue s)
          else scoringQueue s @ [(participantId, job)])\<rparr>"

definition new_job :: "uuid \<Rightarrow> uuid \<Rightarrow> timestamp \<Rightarrow> scoring_job" where
  "new_job examId participantId now =
     \<lparr> job_examId = examId, job_participantId = participantId, job_status = Pending,
       job_createdAt = now, job_completedAt = None, job_error = None \<rparr>"

record trigger_result =
  triggered :: nat
  jobs :: "(uuid \<times> job_status) list"

definition triggerScoring ::
  "state \<Rightarrow> uuid \<Rightarrow> uuid \<Rightarrow> uuid list option \<Rightarrow> timestamp \<Rightarrow> app_error + (state \<times> trigger_result)" where
  "triggerScoring s examId teacherId participantIds now =
     (case findExamByIdAndTeacher s examId teacherId of
        None \<Rightarrow> Inl (NotFoundError ''Exam'')
      | Some exam \<Rightarrow>
          let submitted = filter (\<lambda>p. submitTime p \<noteq> None) (listParticipants s examId);
              toScore =
                (case participantIds of
                   None \<Rightarrow> submitted
                 | Some ids \<Rightarrow>
                     if length ids > 0
                     then filter (\<lambda>p. participant_id p \<in> set ids) submitted
                     else submitted);
              s1 = foldl (\<lambda>st p. queue_set st (participant_id p)
                                   (new_job examId (participant_id p) now)) s toScore;
              s2 = (case toScore of
                      [] \<Rightarrow> s1
                    | p # ps \<Rightarrow> queue_modify s1 (participant_id p)
                                  (\<lambda>j. j\<lparr>job_status := Processing\<rparr>))
          in Inr (s2, \<lparr> triggered = length toScore,
                       jobs = map (\<lambda>p. (participant_id p,
                                         case queue_get s2 (participant_id p) of
                                           None \<Rightarrow> Pending
                                         | Some j \<Rightarrow> job_status j)) toScore \<rparr>))"

record scoring_status =
  pending :: nat
  processing :: nat
  done_count :: nat
  failed :: nat

definition getScoringStatus ::
  "state \<Rightarrow> uuid \<Rightarrow> uuid \<Rightarrow> app_error + scoring_status" where
  "getScoringStatus s examId teacherId =
     (case findExamByIdAndTeacher s examId teacherId of
        None \<Rightarrow> Inl (NotFoundError ''Exam'')
      | Some exam \<Rightarrow>
          let jobs = filter (\<lambda>j. job_examId j = examId) (map snd (scoringQueue s))
          in Inr \<lparr> pending = length (filter (\<lambda>j. job_status j = Pending) jobs),
                   processing = length (filter (\<lambda>j. job_status j = Processing) jobs),
                   done_count = length (filter (\<lambda>j. job_status j = Done) jobs),
                   failed = length (filter (\<lambda>j. job_status j = Failed) jobs) \<rparr>)"

text \<open>
  \<open>overrideScore\<close> reads the answer with its participant and that participant's exam.
  The request carries the final score and, optionally, a feedback string.
\<close>

definition overrideScore ::
  "state \<Rightarrow> uuid \<Rightarrow> uuid \<Rightarrow> real \<Rightarrow> string option \<Rightarrow> timestamp
     \<Rightarrow> app_error + (state \<times> answer option)" where
  "overrideScore s answerId teacherId inFinalScore inFeedback now =
     (case find (\<lambda>a. answer_id a = answerId) (answers s) of
        None \<Rightarrow> Inl (NotFoundError ''Answer'')
      | Some a \<Rightarrow>
          (case findParticipantById s (answer_participantId a) of
             None \<Rightarrow> Inl UnexpectedError
           | Some participant \<Rightarrow>
               (case findExamById s (participant_examId participant) of
                  None \<Rightarrow> Inl UnexpectedError
                | Some exam \<Rightarrow>
                    if exam_teacherId exam \<noteq> teacherId
                    then Inl (ForbiddenError ''You do not have access to this answer'')
                    else
                      let rows = map (\<lambda>r. if answer_id r = answerId
                                           then r\<lparr> finalScore := Some inFinalScore,
                                                   answer_feedback :=
                                                     (case inFeedback of
                                                        None \<Rightarrow> answer_feedback r
                                                      | Some f \<Rightarrow> Some (FeedbackText f)),
                                                   answer_status := SCORED,
                                                   answer_updatedAt := now \<rparr>
                                           else r) (answers s);
                          s1 = s\<lparr>answers := rows\<rparr>
                      in Inr (recalculateParticipantScore s1 (answer_participantId a),
                              find (\<lambda>r. answer_id r = answerId) rows))))"

section \<open>Notions used in the statements\<close>

text \<open>
  The state and the row an update of the exams table gives when the database accepts it:
  \<open>updateExam\<close> returns this pair unless it throws.
\<close>

definition write_exam :: "state \<Rightarrow> uuid \<Rightarrow> exam_patch \<Rightarrow> timestamp \<Rightarrow> state \<times> exam option" where
  "write_exam s i d now =
     (let rows = map (\<lambda>e. if exam_id e = i then apply_exam_patch d now e else e) (exams s)
      in (s\<lparr>exams := rows\<rparr>, find (\<lambda>e. exam_id e = i) rows))"

text \<open>The statistics row of an exam that has just started: 0 in the seven aggregate columns.\<close>

definition all_zero :: "exam_statistic \<Rightarrow> bool" where
  "all_zero r \<longleftrightarrow> avgScore r = Some 0 \<and> maxScore r = Some 0 \<and> minScore r = Some 0
     \<and> totalParticipants r = Some 0 \<and> submittedCount r = Some 0
     \<and> scoredCount r = Some 0 \<and> suspiciousCount r = Some 0"

text \<open>
  The spec's words for the participant aggregate: the final scores of the participant's
  answers that have one, and the arithmetic mean of a list.
\<close>

definition final_scores :: "state \<Rightarrow> uuid \<Rightarrow> real list" where
  "final_scores s participantId =
     List.map_filter finalScore (filter (\<lambda>a. answer_participantId a = participantId) (answers s))"

definition mean :: "real list \<Rightarrow> real" where
  "mean xs = sum_list xs / real (length xs)"




text \<open>
  The spec's words for the comparison of a multiple-choice answer with its key: a string
  is normalized by case-folding it, with the method of the engine the code calls, and
  trimming it.
\<close>

definition normalized :: "(js_string \<Rightarrow> js_string) \<Rightarrow> js_string \<Rightarrow> js_string" where
  "normalized casing t = trim (casing t)"

text \<open>
  On a string of code units below 128 both case methods of JavaScript work unit by
  unit: \<^verbatim>\<open>toLowerCase\<close> moves A to Z onto a to z, \<^verbatim>\<open>toUpperCase\<close> moves a to z onto A to Z,
  and every other unit stays. \<open>ascii_case_maps\<close> says so of an engine. Two strings are
  equal ignoring case when, trimmed, they agree unit by unit up to the case of a letter.
\<close>

definition ascii_lower :: "nat \<Rightarrow> nat" where
  "ascii_lower n = (if 65 \<le> n \<and> n \<le> 90 then n + 32 else n)"

definition ascii_upper :: "nat \<Rightarrow> nat" where
  "ascii_upper n = (if 97 \<le> n \<and> n \<le> 122 then n - 32 else n)"

definition ascii :: "js_string \<Rightarrow> bool" where
  "ascii t = list_all (\<lambda>n. n < 128) t"

definition ascii_case_maps :: "js_engine \<Rightarrow> bool" where
  "ascii_case_maps engine \<longleftrightarrow>
     (\<forall>t. ascii t \<longrightarrow> toLowerCase engine t = map ascii_lower t
                     \<and> toUpperCase engine t = map ascii_upper t)"

definition equal_ignoring_case :: "js_string \<Rightarrow> js_string \<Rightarrow> bool" where
  "equal_ignoring_case a b =
     list_all2 (\<lambda>c d. c = d \<or> ascii_upper c = d \<or> c = ascii_upper d) (trim a) (trim b)"

section \<open>Example states\<close>

text \<open>
  Concrete rows and states at which the statements below are evaluated: one exam \<open>e1\<close> of
  teacher \<open>t1\<close>, questions \<open>q1\<close>, \<open>q2\<close>, participant \<open>p1\<close> of student \<open>u1\<close>, two essay
  scorers, one that always throws and one that always returns 77, and an engine whose
  case methods move the 26 letters of ASCII and nothing else.
\<close>

definition fx_exam :: "exam_status \<Rightarrow> exam" where
  "fx_exam st =
     \<lparr> exam_id = ''e1'', exam_teacherId = ''t1'', exam_title = ''Quiz'',
       exam_startTime = None, exam_endTime = None, exam_status = st,
       exam_settings = None, exam_updatedAt = 0 \<rparr>"

definition fx_link :: "uuid \<Rightarrow> exam_question" where
  "fx_link q = \<lparr> eq_examId = ''e1'', eq_questionId = q, eq_order = Some 0, eq_points = Some 1 \<rparr>"

definition fx_state :: "exam_status \<Rightarrow> exam_question list \<Rightarrow> state" where
  "fx_state st links =
     \<lparr> exams = [fx_exam st], questions = [], examQuestions = links, examParticipants = [],
       answers = [], examStatistics = [], scoringQueue = [], broadcasts = [] \<rparr>"

definition fx_question :: "question_type \<Rightarrow> string option \<Rightarrow> uuid \<Rightarrow> question" where
  "fx_question ty key i =
     \<lparr> question_id = i, question_teacherId = ''t1'', question_type = ty,
       question_text = ''Q'', answerKey = map_option js key, rubric = None \<rparr>"

definition fx_answer :: "uuid \<Rightarrow> uuid \<Rightarrow> string option \<Rightarrow> answer" where
  "fx_answer i q txt =
     \<lparr> answer_id = i, answer_participantId = ''p1'', answer_questionId = q,
       answerText = map_option js txt, answerFileUrl = None, aiScore = None, finalScore = None,
       answer_feedback = None, answer_status = PENDING, answer_updatedAt = 0 \<rparr>"

definition fx_scorer_throws :: aes_scorer where
  "fx_scorer_throws =
     \<lparr> scoreText = (\<lambda>a k r q. Throws), scoreImage = (\<lambda>a k r q. Throws) \<rparr>"

definition fx_participant :: "uuid \<Rightarrow> uuid \<Rightarrow> timestamp option \<Rightarrow> real option \<Rightarrow> exam_participant" where
  "fx_participant i u submitted sc =
     \<lparr> participant_id = i, participant_examId = ''e1'', participant_studentId = u,
       proctoringSessionId = None, participant_startTime = Some 1, submitTime = submitted,
       score = sc, participant_status = Some ''IN_PROGRESS'' \<rparr>"

definition fx_final :: "uuid \<Rightarrow> real option \<Rightarrow> answer" where
  "fx_final i v = (fx_answer i ''q1'' (Some ''B''))\<lparr>finalScore := v\<rparr>"

definition fx_statistic :: exam_statistic where
  "fx_statistic =
     \<lparr> stat_examId = ''e1'', avgScore = Some 0, maxScore = Some 0, minScore = Some 0,
       totalParticipants = Some 2, submittedCount = Some 1, scoredCount = Some 0,
       suspiciousCount = Some 3, stat_updatedAt = 2 \<rparr>"

definition fx_scoring_state :: "exam_participant list \<Rightarrow> question list \<Rightarrow> answer list \<Rightarrow> state" where
  "fx_scoring_state ps qs as =
     \<lparr> exams = [fx_exam FINISHED], questions = qs, examQuestions = [fx_link ''q1''],
       examParticipants = ps, answers = as, examStatistics = [fx_statistic],
       scoringQueue = [], broadcasts = [] \<rparr>"

definition fx_input :: "uuid \<Rightarrow> submit_answer_input" where
  "fx_input q =
     \<lparr> in_questionId = q, in_answerText = Some (js ''C''), in_answerFileUrl = None \<rparr>"

definition fx_submit_state :: state where
  "fx_submit_state =
     \<lparr> exams = [fx_exam ONGOING],
       questions = [fx_question PG (Some ''B'') ''q1'', fx_question PG (Some ''C'') ''q2''],
       examQuestions = [fx_link ''q1''],
       examParticipants = [fx_participant ''p1'' ''u1'' None None],
       answers = [], examStatistics = [fx_statistic], scoringQueue = [], broadcasts = [] \<rparr>"



definition ascii_engine :: js_engine where
  "ascii_engine = \<lparr> toLowerCase = map ascii_lower, toUpperCase = map ascii_upper \<rparr>"

section \<open>Auxiliary facts\<close>

lemma find_map_preserved:
  assumes "\<And>x. P (f x) = P x"
  shows "find P (map f xs) = map_option f (find P xs)"
  using assms by (induction xs) auto

lemma find_append_case:
  "find P (xs @ ys) = (case find P xs of None \<Rightarrow> find P ys | Some x \<Rightarrow> Some x)"
  by (induction xs) auto

lemma set_insert_by_order: "set (insert_by_order q rs) = insert q (set rs)"
  by (induction rs) auto

lemma set_getExamQuestions:
  "set (getExamQuestions s i) = {q \<in> set (examQuestions s). eq_examId q = i}"
proof -
  have "set (foldr insert_by_order xs []) = set xs" for xs
    by (induction xs) (auto simp: set_insert_by_order)
  then show ?thesis by (auto simp: getExamQuestions_def)
qed

lemma getExamQuestions_empty:
  "getExamQuestions s i = [] \<longleftrightarrow> (\<forall>q\<in>set (examQuestions s). eq_examId q \<noteq> i)"
proof -
  have "getExamQuestions s i = [] \<longleftrightarrow> set (getExamQuestions s i) = {}" by simp
  also have "\<dots> \<longleftrightarrow> (\<forall>q\<in>set (examQuestions s). eq_examId q \<noteq> i)"
    unfolding set_getExamQuestions by auto
  finally show ?thesis .
qed

lemma getStatistics_upsert:
  "getStatistics (upsertStatistics s i d now) i =
     Some (case getStatistics s i of
             Some r \<Rightarrow> apply_statistic_patch d now r
           | None \<Rightarrow> new_statistic i d now)"
proof (cases "find (\<lambda>r. stat_examId r = i) (examStatistics s)")
  case None
  then have "find (\<lambda>r. stat_examId r = i) (examStatistics s @ [new_statistic i d now])
               = Some (new_statistic i d now)"
    by (simp add: find_append_case new_statistic_def)
  with None show ?thesis
    by (simp add: getStatistics_def upsertStatistics_def)
next
  case (Some r)
  have "find (\<lambda>r. stat_examId r = i)
          (map (\<lambda>r. if stat_examId r = i then apply_statistic_patch d now r else r) (examStatistics s))
        = map_option (\<lambda>r. if stat_examId r = i then apply_statistic_patch d now r else r)
            (find (\<lambda>r. stat_examId r = i) (examStatistics s))"
    by (rule find_map_preserved) (simp add: apply_statistic_patch_def)
  moreover have "stat_examId r = i" using Some by (auto simp: find_Some_iff)
  ultimately show ?thesis using Some
    by (simp add: getStatistics_def upsertStatistics_def)
qed

lemma find_pred_holds: "find P xs = Some x \<Longrightarrow> P x \<and> x \<in> set xs"
  by (induction xs) (auto split: if_splits)

lemma find_exists: "x \<in> set xs \<Longrightarrow> P x \<Longrightarrow> find P xs \<noteq> None"
  by (induction xs) auto



lemma apply_exam_patch_sel:
  "exam_id (apply_exam_patch d now e) = exam_id e"
  "exam_teacherId (apply_exam_patch d now e) = exam_teacherId e"
  "exam_status (apply_exam_patch d now e) =
     (case set_status d of None \<Rightarrow> exam_status e | Some v \<Rightarrow> v)"
  by (simp_all add: apply_exam_patch_def)

lemma updateExam_accepted:
  assumes "set_status d = Some st" and "st \<in> set examStatusEnum"
  shows "updateExam s i d now = Inr (write_exam s i d now)"
  using assms by (simp add: updateExam_def write_exam_def Let_def)

lemma updateExam_refused:
  assumes "set_status d = Some st" and "st \<notin> set examStatusEnum"
  shows "updateExam s i d now = Inl DatabaseError"
  using assms by (simp add: updateExam_def)

lemma write_exam_effect:
  assumes "findExamByIdAndTeacher s i t = Some e" and "set_status d = Some st"
  shows "\<exists>u. snd (write_exam s i d now) = Some u \<and> exam_id u = i \<and> exam_status u = st"
    and "\<forall>x\<in>set (exams (fst (write_exam s i d now))). exam_id x = i \<longrightarrow> exam_status x = st"
    and "findExamByIdAndTeacher (fst (write_exam s i d now)) i t \<noteq> None"
proof -
  let ?f = "\<lambda>x. if exam_id x = i then apply_exam_patch d now x else x"
  have rows: "exams (fst (write_exam s i d now)) = map ?f (exams s)"
    and res: "snd (write_exam s i d now) = find (\<lambda>x. exam_id x = i) (map ?f (exams s))"
    by (simp_all add: write_exam_def Let_def)
  have e: "e \<in> set (exams s)" "exam_id e = i" "exam_teacherId e = t"
    using find_pred_holds [OF assms(1) [unfolded findExamByIdAndTeacher_def]] by simp_all
  have f_status: "exam_id x = i \<Longrightarrow> exam_status (?f x) = st" for x
    by (simp add: apply_exam_patch_sel assms(2))
  have f_id: "exam_id (?f x) = exam_id x" for x
    by (simp add: apply_exam_patch_sel)
  have f_teacher: "exam_teacherId (?f x) = exam_teacherId x" for x
    by (simp add: apply_exam_patch_sel)
  have found: "find (\<lambda>x. exam_id x = i) (map ?f (exams s))
                 = map_option ?f (find (\<lambda>x. exam_id x = i) (exams s))"
    by (rule find_map_preserved) (simp only: f_id)
  obtain e0 where e0: "find (\<lambda>x. exam_id x = i) (exams s) = Some e0"
    using find_exists [OF e(1), of "\<lambda>x. exam_id x = i"] e(2) by blast
  have "exam_id e0 = i" using find_pred_holds [OF e0] by simp
  then have "exam_id (?f e0) = i" "exam_status (?f e0) = st"
    using f_id [of e0] f_status [of e0] by simp_all
  then show "\<exists>u. snd (write_exam s i d now) = Some u \<and> exam_id u = i \<and> exam_status u = st"
    unfolding res found e0 by simp
  show "\<forall>x\<in>set (exams (fst (write_exam s i d now))). exam_id x = i \<longrightarrow> exam_status x = st"
  proof (intro ballI impI)
    fix x assume "x \<in> set (exams (fst (write_exam s i d now)))" and xi: "exam_id x = i"
    then obtain y where y: "y \<in> set (exams s)" "x = ?f y" unfolding rows by auto
    with xi f_id [of y] have "exam_id y = i" by simp
    with y f_status [of y] show "exam_status x = st" by simp
  qed
  have "find (\<lambda>x. exam_id x = i \<and> exam_teacherId x = t) (map ?f (exams s))
          = map_option ?f (find (\<lambda>x. exam_id x = i \<and> exam_teacherId x = t) (exams s))"
    by (rule find_map_preserved) (simp only: f_id f_teacher)
  then show "findExamByIdAndTeacher (fst (write_exam s i d now)) i t \<noteq> None"
    using assms(1) unfolding findExamByIdAndTeacher_def rows by simp
qed

lemma write_exam_frame:
  "examStatistics (fst (write_exam s i d now)) = examStatistics s"
  "examQuestions (fst (write_exam s i d now)) = examQuestions s"
  by (simp_all add: write_exam_def Let_def)

lemma upsertStatistics_frame:
  "exams (upsertStatistics s i d now) = exams s"
  "examQuestions (upsertStatistics s i d now) = examQuestions s"
  "examParticipants (upsertStatistics s i d now) = examParticipants s"
  "answers (upsertStatistics s i d now) = answers s"
  "scoringQueue (upsertStatistics s i d now) = scoringQueue s"
  by (simp_all add: upsertStatistics_def split: option.split)

lemma start_checks_ok:
  assumes "getExamQuestions s examId \<noteq> []"
  shows "start_checks s examId now =
           Inr (broadcastExamStart (upsertStatistics s examId zero_statistics now) examId)"
  using assms by (simp add: start_checks_def)

lemma updateExamStatus_rejected:
  assumes "findExamByIdAndTeacher s examId teacherId = Some exam"
    and "newStatus \<notin> set (validTransitions (exam_status exam))"
  shows "updateExamStatus s examId teacherId newStatus now =
           Inl (BadRequestError (''Cannot transition from '' @ status_name (exam_status exam)
                                   @ '' to '' @ status_name newStatus))"
  using assms by (simp add: updateExamStatus_def)

lemma updateExamStatus_unfold:
  assumes own: "findExamByIdAndTeacher s examId teacherId = Some exam"
    and ok: "newStatus \<in> set (validTransitions (exam_status exam))"
  shows "updateExamStatus s examId teacherId newStatus now =
          (case (if exam_status exam = DRAFT \<and> newStatus = ONGOING
                 then start_checks s examId now else Inr s) of
             Inl err \<Rightarrow> Inl err
           | Inr s1 \<Rightarrow>
               updateExam (if exam_status exam = ONGOING \<and> newStatus = FINISHED
                           then broadcastExamEnd s1 examId else s1) examId
                      \<lparr> set_status = Some newStatus,
                        set_startTime = (if newStatus = ONGOING \<and> exam_startTime exam = None
                                         then Some now else None),
                        set_endTime = (if newStatus = FINISHED then Some now else None) \<rparr> now)"
  unfolding updateExamStatus_def Let_def using own ok by simp

lemma updateExamStatus_allowed:
  assumes own: "findExamByIdAndTeacher s examId teacherId = Some exam"
    and ok: "newStatus \<in> set (validTransitions (exam_status exam))"
    and enum: "newStatus \<in> set examStatusEnum"
    and qs: "\<not> (exam_status exam = DRAFT \<and> getExamQuestions s examId = [])"
  shows "\<exists>s' updated. updateExamStatus s examId teacherId newStatus now = Inr (s', Some updated)
           \<and> exam_id updated = examId \<and> exam_status updated = newStatus
           \<and> (\<forall>e\<in>set (exams s'). exam_id e = examId \<longrightarrow> exam_status e = newStatus)
           \<and> findExamByIdAndTeacher s' examId teacherId \<noteq> None"
proof -
  define pre where "pre = (if exam_status exam = DRAFT \<and> newStatus = ONGOING
                           then start_checks s examId now else Inr s)"
  have "\<exists>s1. pre = Inr s1 \<and> exams s1 = exams s"
  proof (cases "exam_status exam = DRAFT \<and> newStatus = ONGOING")
    case True
    with qs have "getExamQuestions s examId \<noteq> []" by simp
    from start_checks_ok [OF this] True show ?thesis
      by (simp add: pre_def broadcastExamStart_def upsertStatistics_frame)
  next
    case False
    then have "pre = Inr s" unfolding pre_def by (simp only: if_False)
    then show ?thesis by simp
  qed
  then obtain s1 where s1: "pre = Inr s1" and ex1: "exams s1 = exams s" by blast
  define s2 where "s2 = (if exam_status exam = ONGOING \<and> newStatus = FINISHED
                         then broadcastExamEnd s1 examId else s1)"
  have ex2: "exams s2 = exams s" by (simp add: s2_def broadcastExamEnd_def ex1)
  define d where "d = \<lparr> set_status = Some newStatus,
                        set_startTime = (if newStatus = ONGOING \<and> exam_startTime exam = None
                                         then Some now else None),
                        set_endTime = (if newStatus = FINISHED then Some now else None) \<rparr>"
  have own2: "findExamByIdAndTeacher s2 examId teacherId = Some exam"
    using own ex2 by (simp add: findExamByIdAndTeacher_def)
  have d: "set_status d = Some newStatus" by (simp add: d_def)
  have "updateExamStatus s examId teacherId newStatus now = updateExam s2 examId d now"
    unfolding updateExamStatus_unfold [OF own ok] pre_def [symmetric] s1 s2_def d_def by simp
  then have res: "updateExamStatus s examId teacherId newStatus now = Inr (write_exam s2 examId d now)"
    by (simp only: updateExam_accepted [OF d enum])
  obtain s' u where su: "write_exam s2 examId d now = (s', u)" by (cases "write_exam s2 examId d now")
  from write_exam_effect [OF own2 d, of now] su
  have "\<exists>v. u = Some v \<and> exam_id v = examId \<and> exam_status v = newStatus"
    and "\<forall>e\<in>set (exams s'). exam_id e = examId \<longrightarrow> exam_status e = newStatus"
    and "findExamByIdAndTeacher s' examId teacherId \<noteq> None"
    by simp_all
  then show ?thesis unfolding res su by blast
qed

lemma updateExamStatus_publish_refused:
  assumes own: "findExamByIdAndTeacher s examId teacherId = Some exam"
    and fin: "exam_status exam = FINISHED"
  shows "updateExamStatus s examId teacherId PUBLISHED now
           = updateExam s examId
               \<lparr> set_status = Some PUBLISHED, set_startTime = None, set_endTime = None \<rparr> now"
    and "updateExamStatus s examId teacherId PUBLISHED now = Inl DatabaseError"
proof -
  have ok: "PUBLISHED \<in> set (validTransitions (exam_status exam))"
    by (simp add: fin validTransitions_def)
  show call: "updateExamStatus s examId teacherId PUBLISHED now
           = updateExam s examId
               \<lparr> set_status = Some PUBLISHED, set_startTime = None, set_endTime = None \<rparr> now"
    unfolding updateExamStatus_unfold [OF own ok] by (simp add: fin)
  have "PUBLISHED \<notin> set examStatusEnum" by (simp add: examStatusEnum_def)
  then show "updateExamStatus s examId teacherId PUBLISHED now = Inl DatabaseError"
    unfolding call by (simp add: updateExam_refused)
qed

lemma validTransitions_table:
  "newStatus \<in> set (validTransitions st) \<longleftrightarrow>
     (st, newStatus) \<in> {(DRAFT, ONGOING), (ONGOING, FINISHED), (FINISHED, PUBLISHED), (FINISHED, ONGOING)}"
  by (cases st; cases newStatus) (simp_all add: validTransitions_def)

lemma zero_statistics_row:
  "all_zero (case old of Some r \<Rightarrow> apply_statistic_patch zero_statistics now r
                        | None \<Rightarrow> new_statistic i zero_statistics now)"
  by (cases old)
     (simp_all add: all_zero_def apply_statistic_patch_def new_statistic_def
        zero_statistics_def keep_def)

lemma getStatistics_frame:
  "examStatistics s' = examStatistics s \<Longrightarrow> getStatistics s' i = getStatistics s i"
  by (simp add: getStatistics_def)

lemma getExamQuestions_frame:
  "examQuestions s' = examQuestions s \<Longrightarrow> getExamQuestions s' i = getExamQuestions s i"
  by (simp add: getExamQuestions_def)

lemma broadcast_frame:
  "examStatistics (broadcastExamStart s i) = examStatistics s"
  "exams (broadcastExamStart s i) = exams s"
  "examStatistics (broadcastExamEnd s i) = examStatistics s"
  "exams (broadcastExamEnd s i) = exams s"
  by (simp_all add: broadcastExamStart_def broadcastExamEnd_def)

lemma updateExamStatus_start:
  assumes own: "findExamByIdAndTeacher s examId teacherId = Some exam"
    and draft: "exam_status exam = DRAFT"
    and qs: "getExamQuestions s examId \<noteq> []"
  shows "\<exists>s' updated r. updateExamStatus s examId teacherId ONGOING now = Inr (s', Some updated)
           \<and> exam_id updated = examId \<and> exam_status updated = ONGOING
           \<and> (\<forall>e\<in>set (exams s'). exam_id e = examId \<longrightarrow> exam_status e = ONGOING)
           \<and> findExamByIdAndTeacher s' examId teacherId \<noteq> None
           \<and> getStatistics s' examId = Some r \<and> all_zero r"
proof -
  define s1 where "s1 = broadcastExamStart (upsertStatistics s examId zero_statistics now) examId"
  define d where "d = \<lparr> set_status = Some ONGOING,
                        set_startTime = (if exam_startTime exam = None then Some now else None),
                        set_endTime = None \<rparr>"
  have ok: "ONGOING \<in> set (validTransitions (exam_status exam))"
    by (simp add: draft validTransitions_def)
  have d: "set_status d = Some ONGOING" by (simp add: d_def)
  have enum: "ONGOING \<in> set examStatusEnum" by (simp add: examStatusEnum_def)
  have "updateExamStatus s examId teacherId ONGOING now = updateExam s1 examId d now"
    unfolding updateExamStatus_unfold [OF own ok] start_checks_ok [OF qs] s1_def d_def
    by (simp add: draft)
  then have res: "updateExamStatus s examId teacherId ONGOING now = Inr (write_exam s1 examId d now)"
    by (simp only: updateExam_accepted [OF d enum])
  have own1: "findExamByIdAndTeacher s1 examId teacherId = Some exam"
    using own by (simp add: findExamByIdAndTeacher_def s1_def broadcast_frame upsertStatistics_frame)
  have "getStatistics (fst (write_exam s1 examId d now)) examId
          = getStatistics (upsertStatistics s examId zero_statistics now) examId"
    by (simp add: getStatistics_def write_exam_frame s1_def broadcast_frame)
  then obtain r where r: "getStatistics (fst (write_exam s1 examId d now)) examId = Some r" "all_zero r"
    using zero_statistics_row [where old = "getStatistics s examId" and now = now and i = examId]
    by (simp add: getStatistics_upsert)
  obtain s' u where su: "write_exam s1 examId d now = (s', u)" by (cases "write_exam s1 examId d now")
  from write_exam_effect [OF own1 d, of now] su
  have "\<exists>v. u = Some v \<and> exam_id v = examId \<and> exam_status v = ONGOING"
    and "\<forall>e\<in>set (exams s'). exam_id e = examId \<longrightarrow> exam_status e = ONGOING"
    and "findExamByIdAndTeacher s' examId teacherId \<noteq> None"
    by simp_all
  moreover from r su have "getStatistics s' examId = Some r" by simp
  ultimately show ?thesis unfolding res su using r(2) by blast
qed

lemma publishExam_start:
  assumes own: "findExamByIdAndTeacher s examId teacherId = Some exam"
    and draft: "exam_status exam = DRAFT"
    and qs: "getExamQuestions s examId \<noteq> []"
  shows "\<exists>s' updated r. publishExam s examId teacherId now = Inr (s', Some updated)
           \<and> exam_id updated = examId \<and> exam_status updated = ONGOING
           \<and> (\<forall>e\<in>set (exams s'). exam_id e = examId \<longrightarrow> exam_status e = ONGOING)
           \<and> findExamByIdAndTeacher s' examId teacherId \<noteq> None
           \<and> getStatistics s' examId = Some r \<and> all_zero r"
proof -
  define d where "d = \<lparr> set_status = Some ONGOING,
                        set_startTime = Some (case exam_startTime exam of None \<Rightarrow> now | Some t \<Rightarrow> t),
                        set_endTime = None \<rparr>"
  have d: "set_status d = Some ONGOING" by (simp add: d_def)
  have enum: "ONGOING \<in> set examStatusEnum" by (simp add: examStatusEnum_def)
  obtain s1 u where su: "write_exam s examId d now = (s1, u)" by (cases "write_exam s examId d now")
  define s' where "s' = broadcastExamStart (upsertStatistics s1 examId zero_statistics now) examId"
  have upd: "updateExam s examId d now = Inr (s1, u)"
    unfolding updateExam_accepted [OF d enum] su ..
  have res: "publishExam s examId teacherId now = Inr (s', u)"
    unfolding publishExam_def s'_def using own draft qs upd by (simp add: d_def)
  have ex: "exams s' = exams s1"
    by (simp add: s'_def broadcast_frame upsertStatistics_frame)
  from write_exam_effect [OF own d, of now] su
  have u: "\<exists>v. u = Some v \<and> exam_id v = examId \<and> exam_status v = ONGOING"
    and rows: "\<forall>e\<in>set (exams s1). exam_id e = examId \<longrightarrow> exam_status e = ONGOING"
    and own1: "findExamByIdAndTeacher s1 examId teacherId \<noteq> None"
    by simp_all
  from rows have rows': "\<forall>e\<in>set (exams s'). exam_id e = examId \<longrightarrow> exam_status e = ONGOING"
    unfolding ex .
  from own1 have own': "findExamByIdAndTeacher s' examId teacherId \<noteq> None"
    unfolding findExamByIdAndTeacher_def ex .
  have "getStatistics s' examId = getStatistics (upsertStatistics s1 examId zero_statistics now) examId"
    by (simp add: getStatistics_def s'_def broadcast_frame)
  then obtain r where "getStatistics s' examId = Some r" "all_zero r"
    using zero_statistics_row [where old = "getStatistics s1 examId" and now = now and i = examId]
    by (simp add: getStatistics_upsert)
  with u rows' own' show ?thesis unfolding res by blast
qed

lemma start_without_questions:
  assumes own: "findExamByIdAndTeacher s examId teacherId = Some exam"
    and draft: "exam_status exam = DRAFT"
    and qs: "getExamQuestions s examId = []"
  shows "updateExamStatus s examId teacherId ONGOING now
           = Inl (BadRequestError ''Cannot start exam without questions'')"
    and "publishExam s examId teacherId now
           = Inl (BadRequestError ''Cannot publish exam without questions'')"
proof -
  have ok: "ONGOING \<in> set (validTransitions (exam_status exam))"
    by (simp add: draft validTransitions_def)
  show "updateExamStatus s examId teacherId ONGOING now
           = Inl (BadRequestError ''Cannot start exam without questions'')"
    unfolding updateExamStatus_unfold [OF own ok] by (simp add: draft start_checks_def qs)
  show "publishExam s examId teacherId now
           = Inl (BadRequestError ''Cannot publish exam without questions'')"
    unfolding publishExam_def using own draft qs by simp
qed

lemma ascii_lower_eq_iff:
  "ascii_lower c = ascii_lower d \<longleftrightarrow> (c = d \<or> ascii_upper c = d \<or> c = ascii_upper d)"
  unfolding ascii_lower_def ascii_upper_def by (simp split: if_splits) arith

lemma ascii_upper_eq_iff:
  "ascii_upper c = ascii_upper d \<longleftrightarrow> (c = d \<or> ascii_upper c = d \<or> c = ascii_upper d)"
  unfolding ascii_upper_def by (simp split: if_splits) arith

lemma white_space_letters:
  assumes "is_white_space n"
  shows "\<not> (65 \<le> n \<and> n \<le> 122)"
  using assms unfolding is_white_space_def by auto

lemma white_space_ascii_case:
  "is_white_space (ascii_lower c) = is_white_space c"
  "is_white_space (ascii_upper c) = is_white_space c"
proof -
  show "is_white_space (ascii_lower c) = is_white_space c"
  proof (cases "65 \<le> c \<and> c \<le> 90")
    case True
    then have "65 \<le> c \<and> c \<le> 122" "65 \<le> c + 32 \<and> c + 32 \<le> 122" by arith+
    with white_space_letters [of c] white_space_letters [of "c + 32"] True
    show ?thesis by (auto simp: ascii_lower_def)
  next
    case False
    then have "ascii_lower c = c" by (auto simp: ascii_lower_def)
    then show ?thesis by simp
  qed
  show "is_white_space (ascii_upper c) = is_white_space c"
  proof (cases "97 \<le> c \<and> c \<le> 122")
    case True
    then have "65 \<le> c \<and> c \<le> 122" "65 \<le> c - 32 \<and> c - 32 \<le> 122" by arith+
    with white_space_letters [of c] white_space_letters [of "c - 32"] True
    show ?thesis by (auto simp: ascii_upper_def)
  next
    case False
    then have "ascii_upper c = c" by (auto simp: ascii_upper_def)
    then show ?thesis by simp
  qed
qed

lemma trim_map:
  assumes "\<And>c. is_white_space (f c) = is_white_space c"
  shows "trim (map f t) = map f (trim t)"
proof -
  have comp: "is_white_space \<circ> f = is_white_space" using assms by (simp add: fun_eq_iff)
  have drop: "dropWhile is_white_space (map f u) = map f (dropWhile is_white_space u)" for u
    by (simp add: dropWhile_map comp)
  show ?thesis by (simp only: trim_def drop rev_map)
qed

lemma map_eq_list_all2:
  "map f xs = map f ys \<longleftrightarrow> list_all2 (\<lambda>x y. f x = f y) xs ys"
proof (induction xs arbitrary: ys)
  case Nil
  then show ?case by simp
next
  case (Cons x xs)
  then show ?case by (cases ys) simp_all
qed

lemma normalized_ascii:
  assumes "ascii_case_maps engine" and "ascii a" and "ascii b"
  shows "normalized (toLowerCase engine) a = normalized (toLowerCase engine) b
           \<longleftrightarrow> equal_ignoring_case a b"
    and "normalized (toUpperCase engine) a = normalized (toUpperCase engine) b
           \<longleftrightarrow> equal_ignoring_case a b"
proof -
  from assms have maps:
    "toLowerCase engine a = map ascii_lower a" "toLowerCase engine b = map ascii_lower b"
    "toUpperCase engine a = map ascii_upper a" "toUpperCase engine b = map ascii_upper b"
    unfolding ascii_case_maps_def by blast+
  show "normalized (toLowerCase engine) a = normalized (toLowerCase engine) b
           \<longleftrightarrow> equal_ignoring_case a b"
    unfolding normalized_def maps equal_ignoring_case_def
    by (simp add: trim_map white_space_ascii_case map_eq_list_all2 ascii_lower_eq_iff)
  show "normalized (toUpperCase engine) a = normalized (toUpperCase engine) b
           \<longleftrightarrow> equal_ignoring_case a b"
    unfolding normalized_def maps equal_ignoring_case_def
    by (simp add: trim_map white_space_ascii_case map_eq_list_all2 ascii_upper_eq_iff)
qed

text \<open>
  What \<open>trim\<close> removes is white space at the two ends, and what it leaves neither begins
  nor ends with white space.
\<close>

lemma trim_surrounding:
  "\<exists>pre post. t = pre @ trim t @ post
     \<and> list_all is_white_space pre \<and> list_all is_white_space post"
proof -
  define u where "u = dropWhile is_white_space t"
  have t: "t = takeWhile is_white_space t @ u"
    unfolding u_def by simp
  have "rev u = takeWhile is_white_space (rev u) @ dropWhile is_white_space (rev u)" by simp
  then have "rev (rev u) = rev (takeWhile is_white_space (rev u) @ dropWhile is_white_space (rev u))"
    by (rule arg_cong)
  then have u: "u = trim t @ rev (takeWhile is_white_space (rev u))"
    unfolding trim_def u_def rev_append rev_rev_ident .
  have pre: "list_all is_white_space (takeWhile is_white_space t)"
    unfolding list_all_iff using set_takeWhileD by fast
  have "list_all is_white_space (takeWhile is_white_space (rev u))"
    unfolding list_all_iff using set_takeWhileD by fast
  then have post: "list_all is_white_space (rev (takeWhile is_white_space (rev u)))"
    by (simp add: list_all_iff)
  from t u have "t = takeWhile is_white_space t @ trim t @ rev (takeWhile is_white_space (rev u))"
    by simp
  with pre post show ?thesis by blast
qed

lemma trim_ends:
  assumes "trim t \<noteq> []"
  shows "\<not> is_white_space (hd (trim t))" and "\<not> is_white_space (last (trim t))"
proof -
  define u where "u = dropWhile is_white_space t"
  define v where "v = dropWhile is_white_space (rev u)"
  have tr: "trim t = rev v" by (simp add: trim_def u_def v_def)
  with assms have v: "v \<noteq> []" by simp
  then have "\<not> is_white_space (hd v)" unfolding v_def by (rule hd_dropWhile)
  then show "\<not> is_white_space (last (trim t))"
    unfolding tr using v by (simp add: last_rev)
  from v have ru: "rev u \<noteq> []" unfolding v_def by auto
  then have un: "u \<noteq> []" by simp
  then have hu: "\<not> is_white_space (hd u)" unfolding u_def by (rule hd_dropWhile)
  have "rev u = takeWhile is_white_space (rev u) @ v" unfolding v_def by simp
  then have "rev (rev u) = rev (takeWhile is_white_space (rev u) @ v)" by (rule arg_cong)
  then have "u = rev v @ rev (takeWhile is_white_space (rev u))"
    unfolding rev_append rev_rev_ident .
  then have "hd u = hd (rev v)" using v by (metis hd_append2 rev_is_Nil_conv)
  with hu show "\<not> is_white_space (hd (trim t))" unfolding tr by simp
qed

lemma ascii_engine_maps: "ascii_case_maps ascii_engine"
  by (simp add: ascii_case_maps_def ascii_engine_def)

lemma js_simps: "js [] = []" "js (c # t) = of_char c # js t"
  by (simp_all add: js_def)

lemma fx_question_sel:
  "question_type (fx_question ty key i) = ty"
  "answerKey (fx_question ty key i) = map_option js key"
  "question_id (fx_question ty key i) = i"
  by (simp_all add: fx_question_def)

lemma fx_answer_sel:
  "answerText (fx_answer i q txt) = map_option js txt"
  "answerFileUrl (fx_answer i q txt) = None"
  "answer_status (fx_answer i q txt) = PENDING"
  "answer_id (fx_answer i q txt) = i"
  "answer_participantId (fx_answer i q txt) = ''p1''"
  "answer_questionId (fx_answer i q txt) = q"
  "finalScore (fx_answer i q txt) = None"
  by (simp_all add: fx_answer_def)

lemma foldl_score_sum:
  "foldl (\<lambda>sum (a, q). sum + score_or_zero (finalScore a)) acc xs
     = acc + sum_list (map (\<lambda>(a, q). score_or_zero (finalScore a)) xs)"
  by (induction xs arbitrary: acc) (simp_all add: case_prod_beta)

lemma scored_answers_scores:
  "map (\<lambda>(a, q). score_or_zero (finalScore a))
       (filter (\<lambda>(a, q). finalScore a \<noteq> None) (map (\<lambda>a. (a, g a)) as))
     = List.map_filter finalScore as"
proof (induction as)
  case Nil
  show ?case by (simp add: map_filter_simps)
next
  case (Cons a as)
  then show ?case
    by (cases "finalScore a") (simp_all add: map_filter_simps score_or_zero_def)
qed

lemma recalculate_unfold:
  "recalculateParticipantScore s pid =
     (if final_scores s pid = [] then s
      else fst (updateParticipant s pid (scored_patch (mean (final_scores s pid)))))"
proof -
  define xs where "xs = filter (\<lambda>(a, q). finalScore a \<noteq> None) (getParticipantAnswers s pid)"
  have scores: "map (\<lambda>(a, q). score_or_zero (finalScore a)) xs = final_scores s pid"
    unfolding xs_def getParticipantAnswers_def final_scores_def by (rule scored_answers_scores)
  then have len: "length xs = length (final_scores s pid)"
    by (metis length_map)
  have empty: "xs = [] \<longleftrightarrow> final_scores s pid = []"
    using len by (metis length_0_conv)
  have total: "foldl (\<lambda>sum (a, q). sum + score_or_zero (finalScore a)) 0 xs
                 = sum_list (final_scores s pid)"
    by (simp add: foldl_score_sum scores)
  show ?thesis
    unfolding recalculateParticipantScore_def Let_def xs_def [symmetric] total
    by (simp add: empty len mean_def)
qed

lemma apply_participant_patch_sel:
  "participant_id (apply_participant_patch d p) = participant_id p"
  "participant_examId (apply_participant_patch d p) = participant_examId p"
  "participant_studentId (apply_participant_patch d p) = participant_studentId p"
  by (simp_all add: apply_participant_patch_def)

lemma updateParticipant_found:
  "findParticipantById (fst (updateParticipant s pid d)) pid
     = map_option (apply_participant_patch d) (findParticipantById s pid)"
proof -
  let ?f = "\<lambda>p. if participant_id p = pid then apply_participant_patch d p else p"
  have id: "participant_id (?f p) = participant_id p" for p
    by (simp add: apply_participant_patch_sel)
  have "find (\<lambda>p. participant_id p = pid) (map ?f (examParticipants s))
          = map_option ?f (find (\<lambda>p. participant_id p = pid) (examParticipants s))"
    by (rule find_map_preserved) (simp only: id)
  moreover have "map_option ?f (find (\<lambda>p. participant_id p = pid) (examParticipants s))
          = map_option (apply_participant_patch d) (find (\<lambda>p. participant_id p = pid) (examParticipants s))"
  proof (cases "find (\<lambda>p. participant_id p = pid) (examParticipants s)")
    case None
    then show ?thesis by simp
  next
    case (Some p)
    with find_pred_holds [OF Some] show ?thesis by simp
  qed
  ultimately show ?thesis
    by (simp add: findParticipantById_def updateParticipant_def Let_def)
qed

lemma fx_scoring_state_sel:
  "exams (fx_scoring_state ps qs as) = [fx_exam FINISHED]"
  "questions (fx_scoring_state ps qs as) = qs"
  "examParticipants (fx_scoring_state ps qs as) = ps"
  "answers (fx_scoring_state ps qs as) = as"
  "examStatistics (fx_scoring_state ps qs as) = [fx_statistic]"
  "scoringQueue (fx_scoring_state ps qs as) = []"
  by (simp_all add: fx_scoring_state_def)

lemma fx_participant_sel:
  "participant_id (fx_participant i u t sc) = i"
  "participant_examId (fx_participant i u t sc) = ''e1''"
  "participant_studentId (fx_participant i u t sc) = u"
  "submitTime (fx_participant i u t sc) = t"
  "score (fx_participant i u t sc) = sc"
  by (simp_all add: fx_participant_def)

lemma fx_final_sel:
  "finalScore (fx_final i v) = v"
  "answer_participantId (fx_final i v) = ''p1''"
  "answer_id (fx_final i v) = i"
  by (simp_all add: fx_final_def fx_answer_def)

lemma participant_scores_empty:
  "participant_scores ps = [] \<longleftrightarrow> (\<forall>p\<in>set ps. score p = None)"
proof (induction ps)
  case Nil
  show ?case by (simp add: participant_scores_def map_filter_simps)
next
  case (Cons p ps)
  then show ?case
    by (cases "score p") (simp_all add: participant_scores_def map_filter_simps)
qed

lemma updateExamStatistics_unscored:
  assumes "\<forall>p\<in>set (examParticipants s). participant_examId p = examId \<longrightarrow> score p = None"
  shows "updateExamStatistics s examId now = s"
proof -
  have "participant_scores (listParticipants s examId) = []"
    unfolding participant_scores_empty listParticipants_def using assms by simp
  then show ?thesis by (simp add: updateExamStatistics_def Let_def)
qed

lemma updateExamStatistics_row:
  assumes "getStatistics s examId = Some r"
    and "participant_scores (listParticipants s examId) = x # xs"
  shows "getStatistics (updateExamStatistics s examId now) examId
           = Some (apply_statistic_patch (statistics_of (listParticipants s examId) x xs) now r)"
  using assms by (simp add: updateExamStatistics_def Let_def getStatistics_upsert)

lemma updateExamStatistics_tables:
  "(updateExamStatistics s examId now)\<lparr>examStatistics := examStatistics s\<rparr> = s"
  by (simp add: updateExamStatistics_def Let_def upsertStatistics_def
        split: list.split option.split)








lemma fx_exam_sel:
  "exam_id (fx_exam st) = ''e1''"
  "exam_teacherId (fx_exam st) = ''t1''"
  "exam_status (fx_exam st) = st"
  by (simp_all add: fx_exam_def)

lemma not_owner_not_found:
  assumes "\<forall>e\<in>set (exams s). exam_id e = examId \<longrightarrow> exam_teacherId e \<noteq> teacherId"
  shows "findExamByIdAndTeacher s examId teacherId = None"
  unfolding findExamByIdAndTeacher_def find_None_iff using assms by blast

lemma overrideScore_not_owner:
  assumes a: "find (\<lambda>r. answer_id r = answerId) (answers s) = Some a"
    and p: "findParticipantById s (answer_participantId a) = Some p"
    and e: "findExamById s (participant_examId p) = Some exam"
    and t: "exam_teacherId exam \<noteq> teacherId"
  shows "overrideScore s answerId teacherId v fb now
           = Inl (ForbiddenError ''You do not have access to this answer'')"
  by (simp add: overrideScore_def a p e t)

lemma map_upd_keys:
  assumes "\<And>a. key (g a) = key a"
  shows "map key (map (\<lambda>a. if key a = i then g a else a) xs) = map key xs"
  using assms by (induction xs) simp_all




























lemma fx_question_find:
  "find (\<lambda>q. question_id q = i) [fx_question ty key i] = Some (fx_question ty key i)"
  by (simp add: fx_question_sel)

lemma fx_state_owner:
  "findExamByIdAndTeacher (fx_state st links) ''e1'' ''t1'' = Some (fx_exam st)"
  by (simp add: findExamByIdAndTeacher_def fx_state_def fx_exam_def)

lemma fx_exam_status: "exam_status (fx_exam st) = st"
  by (simp add: fx_exam_def)

lemma fx_state_questions:
  "getExamQuestions (fx_state st []) ''e1'' = []"
  "getExamQuestions (fx_state st [fx_link ''q1'']) ''e1'' = [fx_link ''q1'']"
  by (simp_all add: getExamQuestions_def fx_state_def fx_link_def)

section \<open>Exam lifecycle: the claims\<close>

text \<open>
  C1 (as the code has it). For an exam the caller owns, \<open>updateExamStatus\<close> fails with a
  \<open>BadRequestError\<close> when the pair (current status, target status) is outside the table
  DRAFT to ONGOING, ONGOING to FINISHED, FINISHED to PUBLISHED or ONGOING, and nothing from
  PUBLISHED. When the pair is in the table, the target is a status the schema's enum
  has (ONGOING or FINISHED), and the exam is not a DRAFT without linked questions, the
  call succeeds, returns the exam's row, and every row of that exam has the target status.
\<close>

theorem updateExamStatus_transition_table:
  assumes "findExamByIdAndTeacher s examId teacherId = Some exam"
  shows "(newStatus \<in> set (validTransitions (exam_status exam)) \<longleftrightarrow>
            (exam_status exam, newStatus) \<in>
              {(DRAFT, ONGOING), (ONGOING, FINISHED), (FINISHED, PUBLISHED), (FINISHED, ONGOING)})
       \<and> (newStatus \<notin> set (validTransitions (exam_status exam)) \<longrightarrow>
            updateExamStatus s examId teacherId newStatus now
              = Inl (BadRequestError
                       (''Cannot transition from '' @ status_name (exam_status exam)
                          @ '' to '' @ status_name newStatus)))
       \<and> (newStatus \<in> set (validTransitions (exam_status exam))
            \<and> newStatus \<in> set examStatusEnum
            \<and> \<not> (exam_status exam = DRAFT \<and> getExamQuestions s examId = []) \<longrightarrow>
            (\<exists>s' updated.
               updateExamStatus s examId teacherId newStatus now = Inr (s', Some updated)
               \<and> exam_id updated = examId \<and> exam_status updated = newStatus
               \<and> (\<forall>e\<in>set (exams s'). exam_id e = examId \<longrightarrow> exam_status e = newStatus)
               \<and> findExamByIdAndTeacher s' examId teacherId \<noteq> None))"
proof (intro conjI impI)
  show "newStatus \<in> set (validTransitions (exam_status exam)) \<longleftrightarrow>
          (exam_status exam, newStatus) \<in>
            {(DRAFT, ONGOING), (ONGOING, FINISHED), (FINISHED, PUBLISHED), (FINISHED, ONGOING)}"
    by (rule validTransitions_table)
next
  assume "newStatus \<notin> set (validTransitions (exam_status exam))"
  then show "updateExamStatus s examId teacherId newStatus now
              = Inl (BadRequestError
                       (''Cannot transition from '' @ status_name (exam_status exam)
                          @ '' to '' @ status_name newStatus))"
    by (rule updateExamStatus_rejected [OF assms])
next
  assume a: "newStatus \<in> set (validTransitions (exam_status exam))
               \<and> newStatus \<in> set examStatusEnum
               \<and> \<not> (exam_status exam = DRAFT \<and> getExamQuestions s examId = [])"
  then have ok: "newStatus \<in> set (validTransitions (exam_status exam))"
    and enum: "newStatus \<in> set examStatusEnum"
    and qs: "\<not> (exam_status exam = DRAFT \<and> getExamQuestions s examId = [])" by blast+
  show "\<exists>s' updated.
          updateExamStatus s examId teacherId newStatus now = Inr (s', Some updated)
          \<and> exam_id updated = examId \<and> exam_status updated = newStatus
          \<and> (\<forall>e\<in>set (exams s'). exam_id e = examId \<longrightarrow> exam_status e = newStatus)
          \<and> findExamByIdAndTeacher s' examId teacherId \<noteq> None"
    by (rule updateExamStatus_allowed [OF assms ok enum qs])
qed

theorem updateExamStatus_transition_table_witness:
  "updateExamStatus (fx_state FINISHED [fx_link ''q1'']) ''e1'' ''t1'' DRAFT 7
     = Inl (BadRequestError ''Cannot transition from FINISHED to DRAFT'')
   \<and> (\<exists>s' updated. updateExamStatus (fx_state ONGOING [fx_link ''q1'']) ''e1'' ''t1'' FINISHED 7
            = Inr (s', Some updated) \<and> exam_status updated = FINISHED
          \<and> (\<forall>e\<in>set (exams s'). exam_id e = ''e1'' \<longrightarrow> exam_status e = FINISHED))"
proof -
  have "DRAFT \<notin> set (validTransitions (exam_status (fx_exam FINISHED)))"
    by (simp add: fx_exam_status validTransitions_def)
  with updateExamStatus_transition_table
         [OF fx_state_owner [of FINISHED "[fx_link ''q1'']"], where newStatus = DRAFT and now = 7]
  have 1: "updateExamStatus (fx_state FINISHED [fx_link ''q1'']) ''e1'' ''t1'' DRAFT 7
             = Inl (BadRequestError ''Cannot transition from FINISHED to DRAFT'')"
    by (simp add: fx_exam_status status_name_def)
  have "FINISHED \<in> set (validTransitions (exam_status (fx_exam ONGOING)))
          \<and> FINISHED \<in> set examStatusEnum
          \<and> \<not> (exam_status (fx_exam ONGOING) = DRAFT
                \<and> getExamQuestions (fx_state ONGOING [fx_link ''q1'']) ''e1'' = [])"
    by (simp add: fx_exam_status validTransitions_def examStatusEnum_def)
  with updateExamStatus_transition_table
         [OF fx_state_owner [of ONGOING "[fx_link ''q1'']"], where newStatus = FINISHED and now = 7]
  have 2: "\<exists>s' updated. updateExamStatus (fx_state ONGOING [fx_link ''q1'']) ''e1'' ''t1'' FINISHED 7
            = Inr (s', Some updated) \<and> exam_status updated = FINISHED
          \<and> (\<forall>e\<in>set (exams s'). exam_id e = ''e1'' \<longrightarrow> exam_status e = FINISHED)"
    by blast
  from 1 2 show ?thesis by blast
qed

text \<open>
  An allowed pair alone does not update the status: a DRAFT exam without questions stays
  DRAFT and the call fails.
\<close>

theorem updateExamStatus_allowed_pair_counterexample:
  "findExamByIdAndTeacher (fx_state DRAFT []) ''e1'' ''t1'' = Some (fx_exam DRAFT)
   \<and> ONGOING \<in> set (validTransitions (exam_status (fx_exam DRAFT)))
   \<and> updateExamStatus (fx_state DRAFT []) ''e1'' ''t1'' ONGOING 7
       = Inl (BadRequestError ''Cannot start exam without questions'')"
  by (simp add: fx_state_owner fx_exam_status fx_state_questions validTransitions_def
        updateExamStatus_def start_checks_def)

text \<open>
  C2. For a DRAFT exam the caller owns, going to ONGOING fails with a \<open>BadRequestError\<close>
  when no question is linked to the exam. With at least one linked question it succeeds:
  the call returns the exam's row with status ONGOING, every row of the exam in the new
  state has status ONGOING, and the exam's statistics row holds 0 in all seven aggregate
  columns. This holds for \<open>updateExamStatus\<close> with target ONGOING and for \<open>publishExam\<close>.
\<close>

theorem start_requires_questions:
  assumes "findExamByIdAndTeacher s examId teacherId = Some exam"
    and "exam_status exam = DRAFT"
  shows "((\<forall>q\<in>set (examQuestions s). eq_examId q \<noteq> examId) \<longrightarrow>
            updateExamStatus s examId teacherId ONGOING now
              = Inl (BadRequestError ''Cannot start exam without questions'')
            \<and> publishExam s examId teacherId now
              = Inl (BadRequestError ''Cannot publish exam without questions''))
       \<and> ((\<exists>q\<in>set (examQuestions s). eq_examId q = examId) \<longrightarrow>
            (\<exists>s' updated r.
               updateExamStatus s examId teacherId ONGOING now = Inr (s', Some updated)
               \<and> exam_id updated = examId \<and> exam_status updated = ONGOING
               \<and> (\<forall>e\<in>set (exams s'). exam_id e = examId \<longrightarrow> exam_status e = ONGOING)
               \<and> findExamByIdAndTeacher s' examId teacherId \<noteq> None
               \<and> getStatistics s' examId = Some r
               \<and> avgScore r = Some 0 \<and> maxScore r = Some 0 \<and> minScore r = Some 0
               \<and> totalParticipants r = Some 0 \<and> submittedCount r = Some 0
               \<and> scoredCount r = Some 0 \<and> suspiciousCount r = Some 0)
            \<and> (\<exists>s' updated r.
               publishExam s examId teacherId now = Inr (s', Some updated)
               \<and> exam_id updated = examId \<and> exam_status updated = ONGOING
               \<and> (\<forall>e\<in>set (exams s'). exam_id e = examId \<longrightarrow> exam_status e = ONGOING)
               \<and> findExamByIdAndTeacher s' examId teacherId \<noteq> None
               \<and> getStatistics s' examId = Some r
               \<and> avgScore r = Some 0 \<and> maxScore r = Some 0 \<and> minScore r = Some 0
               \<and> totalParticipants r = Some 0 \<and> submittedCount r = Some 0
               \<and> scoredCount r = Some 0 \<and> suspiciousCount r = Some 0))"
proof (intro conjI impI)
  assume "\<forall>q\<in>set (examQuestions s). eq_examId q \<noteq> examId"
  then have qs: "getExamQuestions s examId = []" by (simp add: getExamQuestions_empty)
  from start_without_questions [OF assms qs]
  show "updateExamStatus s examId teacherId ONGOING now
          = Inl (BadRequestError ''Cannot start exam without questions'')"
    and "publishExam s examId teacherId now
          = Inl (BadRequestError ''Cannot publish exam without questions'')"
    by blast+
next
  assume "\<exists>q\<in>set (examQuestions s). eq_examId q = examId"
  then have qs: "getExamQuestions s examId \<noteq> []" by (simp add: getExamQuestions_empty)
  from updateExamStatus_start [OF assms qs, of now]
  show "\<exists>s' updated r.
          updateExamStatus s examId teacherId ONGOING now = Inr (s', Some updated)
          \<and> exam_id updated = examId \<and> exam_status updated = ONGOING
          \<and> (\<forall>e\<in>set (exams s'). exam_id e = examId \<longrightarrow> exam_status e = ONGOING)
          \<and> findExamByIdAndTeacher s' examId teacherId \<noteq> None
          \<and> getStatistics s' examId = Some r
          \<and> avgScore r = Some 0 \<and> maxScore r = Some 0 \<and> minScore r = Some 0
          \<and> totalParticipants r = Some 0 \<and> submittedCount r = Some 0
          \<and> scoredCount r = Some 0 \<and> suspiciousCount r = Some 0"
    unfolding all_zero_def by blast
  from publishExam_start [OF assms qs, of now]
  show "\<exists>s' updated r.
          publishExam s examId teacherId now = Inr (s', Some updated)
          \<and> exam_id updated = examId \<and> exam_status updated = ONGOING
          \<and> (\<forall>e\<in>set (exams s'). exam_id e = examId \<longrightarrow> exam_status e = ONGOING)
          \<and> findExamByIdAndTeacher s' examId teacherId \<noteq> None
          \<and> getStatistics s' examId = Some r
          \<and> avgScore r = Some 0 \<and> maxScore r = Some 0 \<and> minScore r = Some 0
          \<and> totalParticipants r = Some 0 \<and> submittedCount r = Some 0
          \<and> scoredCount r = Some 0 \<and> suspiciousCount r = Some 0"
    unfolding all_zero_def by blast
qed

theorem start_requires_questions_witness:
  "updateExamStatus (fx_state DRAFT []) ''e1'' ''t1'' ONGOING 7
     = Inl (BadRequestError ''Cannot start exam without questions'')
   \<and> (\<exists>s' updated r.
        updateExamStatus (fx_state DRAFT [fx_link ''q1'']) ''e1'' ''t1'' ONGOING 7
          = Inr (s', Some updated)
        \<and> exam_status updated = ONGOING
        \<and> (\<forall>e\<in>set (exams s'). exam_id e = ''e1'' \<longrightarrow> exam_status e = ONGOING)
        \<and> getStatistics s' ''e1'' = Some r \<and> totalParticipants r = Some 0
        \<and> suspiciousCount r = Some 0)
   \<and> (\<exists>s' updated r.
        publishExam (fx_state DRAFT [fx_link ''q1'']) ''e1'' ''t1'' 7 = Inr (s', Some updated)
        \<and> exam_status updated = ONGOING
        \<and> (\<forall>e\<in>set (exams s'). exam_id e = ''e1'' \<longrightarrow> exam_status e = ONGOING)
        \<and> getStatistics s' ''e1'' = Some r \<and> avgScore r = Some 0)"
proof -
  have draft: "exam_status (fx_exam DRAFT) = DRAFT" by (rule fx_exam_status)
  have none: "\<forall>q\<in>set (examQuestions (fx_state DRAFT [])). eq_examId q \<noteq> ''e1''"
    by (simp add: fx_state_def)
  have some: "\<exists>q\<in>set (examQuestions (fx_state DRAFT [fx_link ''q1''])). eq_examId q = ''e1''"
    by (simp add: fx_state_def fx_link_def)
  from start_requires_questions [OF fx_state_owner [of DRAFT "[]"] draft, where now = 7] none
  have 1: "updateExamStatus (fx_state DRAFT []) ''e1'' ''t1'' ONGOING 7
             = Inl (BadRequestError ''Cannot start exam without questions'')"
    by blast
  note start = start_requires_questions
                 [OF fx_state_owner [of DRAFT "[fx_link ''q1'']"] draft, where now = 7]
  from start some
  have 2: "\<exists>s' updated r.
        updateExamStatus (fx_state DRAFT [fx_link ''q1'']) ''e1'' ''t1'' ONGOING 7
          = Inr (s', Some updated)
        \<and> exam_status updated = ONGOING
        \<and> (\<forall>e\<in>set (exams s'). exam_id e = ''e1'' \<longrightarrow> exam_status e = ONGOING)
        \<and> getStatistics s' ''e1'' = Some r \<and> totalParticipants r = Some 0
        \<and> suspiciousCount r = Some 0"
    by blast
  from start some
  have 3: "\<exists>s' updated r.
        publishExam (fx_state DRAFT [fx_link ''q1'']) ''e1'' ''t1'' 7 = Inr (s', Some updated)
        \<and> exam_status updated = ONGOING
        \<and> (\<forall>e\<in>set (exams s'). exam_id e = ''e1'' \<longrightarrow> exam_status e = ONGOING)
        \<and> getStatistics s' ''e1'' = Some r \<and> avgScore r = Some 0"
    by blast
  from 1 2 3 show ?thesis by blast
qed

text \<open>
  C9, at the input where the code departs from it. The schema's \<^verbatim>\<open>exam_status\<close> enum
  lists DRAFT, ONGOING and FINISHED only, and the transition table of \<open>updateExamStatus\<close>
  allows PUBLISHED after FINISHED. For a FINISHED exam of the caller, the call with
  target PUBLISHED passes every check of the service and hands \<open>updateExam\<close> the status
  PUBLISHED; the database refuses the value, the call ends in the driver's error, and
  nothing is written: the transition the table allows never succeeds.
\<close>

theorem publish_refused_by_schema_enum:
  "examStatusEnum = [DRAFT, ONGOING, FINISHED]
   \<and> PUBLISHED \<in> set (validTransitions FINISHED)
   \<and> PUBLISHED \<notin> set examStatusEnum
   \<and> findExamByIdAndTeacher (fx_state FINISHED [fx_link ''q1'']) ''e1'' ''t1'' = Some (fx_exam FINISHED)
   \<and> updateExamStatus (fx_state FINISHED [fx_link ''q1'']) ''e1'' ''t1'' PUBLISHED 7
       = updateExam (fx_state FINISHED [fx_link ''q1'']) ''e1''
           \<lparr> set_status = Some PUBLISHED, set_startTime = None, set_endTime = None \<rparr> 7
   \<and> updateExamStatus (fx_state FINISHED [fx_link ''q1'']) ''e1'' ''t1'' PUBLISHED 7 = Inl DatabaseError"
proof -
  note refused = updateExamStatus_publish_refused
                   [OF fx_state_owner [of FINISHED "[fx_link ''q1'']"] fx_exam_status, where now = 7]
  have "PUBLISHED \<in> set (validTransitions FINISHED)" by (simp add: validTransitions_def)
  moreover have "PUBLISHED \<notin> set examStatusEnum" by (simp add: examStatusEnum_def)
  ultimately show ?thesis
    using refused
    by (simp add: examStatusEnum_def fx_state_owner)
qed

section \<open>Scoring: the claims\<close>

text \<open>
  C3. For a multiple-choice question with a non-empty answer key and an answer with a
  submitted text, the score the pipeline computes is 100 when text and key are equal
  after case folding (\<^verbatim>\<open>toLowerCase\<close> in the current revision, \<^verbatim>\<open>toUpperCase\<close> in the
  earlier one, each as the engine has it) and trimming, and 0 otherwise. For ASCII text
  and key, with an engine whose case methods are the ASCII ones there, both revisions
  give 100 exactly when the trimmed text and the trimmed key have the same length and
  agree position by position up to the case of a letter, and 0 otherwise. Without a
  submitted text the current revision compares the empty string with the key, and the
  earlier revision gives 0. The score does not depend on the essay scorer.
\<close>

theorem pg_score_is_binary:
  assumes "question_type q = PG" and "answerKey q = Some k" and "k \<noteq> []"
  shows "(\<forall>t. answerText a = Some t \<longrightarrow>
            fst (score_answer engine scorer a q)
              = Some (if normalized (toLowerCase engine) t = normalized (toLowerCase engine) k
                      then 100 else 0)
            \<and> score_answer_prev engine a q
              = Some (if normalized (toUpperCase engine) t = normalized (toUpperCase engine) k
                      then 100 else 0))
       \<and> (\<forall>t. answerText a = Some t \<and> ascii_case_maps engine \<and> ascii t \<and> ascii k \<longrightarrow>
            fst (score_answer engine scorer a q)
              = Some (if equal_ignoring_case t k then 100 else 0)
            \<and> score_answer_prev engine a q
              = Some (if equal_ignoring_case t k then 100 else 0))
       \<and> (answerText a = None \<longrightarrow>
            fst (score_answer engine scorer a q)
              = Some (if normalized (toLowerCase engine) k = [] then 100 else 0)
            \<and> score_answer_prev engine a q = Some 0)
       \<and> score_answer engine scorer a q = score_answer engine scorer' a q"
proof -
  have key: "truthy (answerKey q)" "text_of (answerKey q) = k"
    using assms by (simp_all add: truthy_def text_of_def)
  have cur: "fst (score_answer engine scorer a q)
               = Some (if normalized (toLowerCase engine) t = normalized (toLowerCase engine) k
                       then 100 else 0)"
    and prev: "score_answer_prev engine a q
               = Some (if normalized (toUpperCase engine) t = normalized (toUpperCase engine) k
                       then 100 else 0)"
    if "answerText a = Some t" for t
    unfolding score_answer_def score_answer_prev_def Let_def normalized_def
    using that by (simp_all add: assms(1) key)
  have ascii_cur: "fst (score_answer engine scorer a q)
                     = Some (if equal_ignoring_case t k then 100 else 0)"
    and ascii_prev: "score_answer_prev engine a q
                     = Some (if equal_ignoring_case t k then 100 else 0)"
    if "answerText a = Some t \<and> ascii_case_maps engine \<and> ascii t \<and> ascii k" for t
  proof -
    from that have t: "answerText a = Some t" and maps: "ascii_case_maps engine"
      and at: "ascii t" and ak: "ascii k" by blast+
    show "fst (score_answer engine scorer a q)
            = Some (if equal_ignoring_case t k then 100 else 0)"
      unfolding cur [OF t] normalized_ascii(1) [OF maps at ak] ..
    show "score_answer_prev engine a q = Some (if equal_ignoring_case t k then 100 else 0)"
      unfolding prev [OF t] normalized_ascii(2) [OF maps at ak] ..
  qed
  have missing: "fst (score_answer engine scorer a q)
                   = Some (if normalized (toLowerCase engine) k = [] then 100 else 0)"
    and missing_prev: "score_answer_prev engine a q = Some 0"
    if "answerText a = None"
    unfolding score_answer_def score_answer_prev_def Let_def normalized_def
    using that by (simp_all add: assms(1) key eq_commute)
  have scorer: "score_answer engine scorer a q = score_answer engine scorer' a q"
    unfolding score_answer_def by (simp add: assms(1) key)
  from cur prev ascii_cur ascii_prev missing missing_prev scorer show ?thesis by blast
qed

theorem pg_score_is_binary_witness:
  "fst (score_answer ascii_engine fx_scorer_throws (fx_answer ''a1'' ''q1'' (Some '' B''))
          (fx_question PG (Some ''b '') ''q1'')) = Some 100
   \<and> score_answer_prev ascii_engine (fx_answer ''a1'' ''q1'' (Some '' B''))
          (fx_question PG (Some ''b '') ''q1'') = Some 100
   \<and> fst (score_answer ascii_engine fx_scorer_throws (fx_answer ''a1'' ''q1'' (Some ''A''))
          (fx_question PG (Some ''b '') ''q1'')) = Some 0
   \<and> fst (score_answer ascii_engine fx_scorer_throws
          ((fx_answer ''a1'' ''q1'' None)\<lparr>answerText := Some [66, 160]\<rparr>)
          (fx_question PG (Some ''b '') ''q1'')) = Some 100
   \<and> score_answer_prev ascii_engine (fx_answer ''a1'' ''q1'' None)
          (fx_question PG (Some ''b '') ''q1'') = Some 0"
proof -
  have k: "js ''b '' \<noteq> []" by (simp add: js_simps)
  have key: "answerKey (fx_question PG (Some ''b '') ''q1'') = Some (js ''b '')"
    by (simp add: fx_question_sel)
  have ascii: "ascii (js '' B'')" "ascii (js ''A'')" "ascii (js ''b '')"
    by (simp_all add: js_simps ascii_def)
  have same: "equal_ignoring_case (js '' B'') (js ''b '')"
    by (simp add: js_simps equal_ignoring_case_def trim_def is_white_space_def ascii_upper_def)
  have other: "\<not> equal_ignoring_case (js ''A'') (js ''b '')"
    by (simp add: js_simps equal_ignoring_case_def trim_def is_white_space_def ascii_upper_def)
  have nbsp: "normalized (toLowerCase ascii_engine) [66, 160]
                = normalized (toLowerCase ascii_engine) (js ''b '')"
    by (simp add: js_simps normalized_def ascii_engine_def trim_def is_white_space_def
          ascii_lower_def)
  note score = pg_score_is_binary [OF fx_question_sel(1) key k,
                 where engine = ascii_engine and scorer = fx_scorer_throws]
  have 1: "answerText (fx_answer ''a1'' ''q1'' (Some '' B'')) = Some (js '' B'')
             \<and> ascii_case_maps ascii_engine \<and> ascii (js '' B'') \<and> ascii (js ''b '')"
    by (simp add: fx_answer_sel ascii_engine_maps ascii)
  have 2: "answerText (fx_answer ''a1'' ''q1'' (Some ''A'')) = Some (js ''A'')
             \<and> ascii_case_maps ascii_engine \<and> ascii (js ''A'') \<and> ascii (js ''b '')"
    by (simp add: fx_answer_sel ascii_engine_maps ascii)
  have 3: "answerText (fx_answer ''a1'' ''q1'' None) = None"
    by (simp add: fx_answer_sel)
  have 4: "answerText ((fx_answer ''a1'' ''q1'' None)\<lparr>answerText := Some [66, 160]\<rparr>)
             = Some [66, 160]"
    by simp
  from score [where a = "fx_answer ''a1'' ''q1'' (Some '' B'')"] 1
  have "fst (score_answer ascii_engine fx_scorer_throws (fx_answer ''a1'' ''q1'' (Some '' B''))
                  (fx_question PG (Some ''b '') ''q1''))
          = Some (if equal_ignoring_case (js '' B'') (js ''b '') then 100 else 0)
        \<and> score_answer_prev ascii_engine (fx_answer ''a1'' ''q1'' (Some '' B''))
                  (fx_question PG (Some ''b '') ''q1'')
          = Some (if equal_ignoring_case (js '' B'') (js ''b '') then 100 else 0)"
    by blast
  then have r1: "fst (score_answer ascii_engine fx_scorer_throws (fx_answer ''a1'' ''q1'' (Some '' B''))
                  (fx_question PG (Some ''b '') ''q1'')) = Some 100
            \<and> score_answer_prev ascii_engine (fx_answer ''a1'' ''q1'' (Some '' B''))
                  (fx_question PG (Some ''b '') ''q1'') = Some 100"
    by (simp only: same if_True)
  from score [where a = "fx_answer ''a1'' ''q1'' (Some ''A'')"] 2
  have "fst (score_answer ascii_engine fx_scorer_throws (fx_answer ''a1'' ''q1'' (Some ''A''))
                  (fx_question PG (Some ''b '') ''q1''))
          = Some (if equal_ignoring_case (js ''A'') (js ''b '') then 100 else 0)"
    by blast
  then have r2: "fst (score_answer ascii_engine fx_scorer_throws (fx_answer ''a1'' ''q1'' (Some ''A''))
                  (fx_question PG (Some ''b '') ''q1'')) = Some 0"
    by (simp only: other if_False)
  from score [where a = "fx_answer ''a1'' ''q1'' None"] 3
  have r3: "score_answer_prev ascii_engine (fx_answer ''a1'' ''q1'' None)
                  (fx_question PG (Some ''b '') ''q1'') = Some 0"
    by blast
  from score [where a = "(fx_answer ''a1'' ''q1'' None)\<lparr>answerText := Some [66, 160]\<rparr>"] 4
  have "fst (score_answer ascii_engine fx_scorer_throws
                  ((fx_answer ''a1'' ''q1'' None)\<lparr>answerText := Some [66, 160]\<rparr>)
                  (fx_question PG (Some ''b '') ''q1''))
          = Some (if normalized (toLowerCase ascii_engine) [66, 160]
                     = normalized (toLowerCase ascii_engine) (js ''b '') then 100 else 0)"
    by blast
  then have r4: "fst (score_answer ascii_engine fx_scorer_throws
                  ((fx_answer ''a1'' ''q1'' None)\<lparr>answerText := Some [66, 160]\<rparr>)
                  (fx_question PG (Some ''b '') ''q1'')) = Some 100"
    by (simp only: nbsp refl if_True)
  from r1 r2 r3 r4 show ?thesis by blast
qed

text \<open>
  C4. The recompute leaves the state as it is when the participant has no answer with a
  final score; otherwise it sets the participant's score to the arithmetic mean of the
  non-null final scores of that participant's answers (and the status to SCORED).
\<close>

theorem participant_score_is_mean:
  "(final_scores s participantId = [] \<longrightarrow> recalculateParticipantScore s participantId = s)
   \<and> (final_scores s participantId \<noteq> [] \<longrightarrow>
        (\<forall>p. findParticipantById s participantId = Some p \<longrightarrow>
           findParticipantById (recalculateParticipantScore s participantId) participantId
             = Some (p\<lparr> score := Some (sum_list (final_scores s participantId)
                                         / real (length (final_scores s participantId))),
                        participant_status := Some ''SCORED'' \<rparr>)))"
  unfolding recalculate_unfold
  by (simp add: updateParticipant_found apply_participant_patch_def scored_patch_def mean_def)

theorem participant_score_is_mean_witness:
  "recalculateParticipantScore
       (fx_scoring_state [fx_participant ''p1'' ''u1'' (Some 5) (Some 70)] [] [fx_final ''a1'' None]) ''p1''
     = fx_scoring_state [fx_participant ''p1'' ''u1'' (Some 5) (Some 70)] [] [fx_final ''a1'' None]
   \<and> map_option score
        (findParticipantById
           (recalculateParticipantScore
              (fx_scoring_state [fx_participant ''p1'' ''u1'' (Some 5) None] []
                 [fx_final ''a1'' (Some 100), fx_final ''a2'' None, fx_final ''a3'' (Some 0)]) ''p1'')
           ''p1'')
       = Some (Some 50)"
proof -
  let ?s0 = "fx_scoring_state [fx_participant ''p1'' ''u1'' (Some 5) (Some 70)] [] [fx_final ''a1'' None]"
  let ?s1 = "fx_scoring_state [fx_participant ''p1'' ''u1'' (Some 5) None] []
               [fx_final ''a1'' (Some 100), fx_final ''a2'' None, fx_final ''a3'' (Some 0)]"
  have f0: "final_scores ?s0 ''p1'' = []"
    by (simp add: final_scores_def fx_scoring_state_sel fx_final_sel map_filter_simps)
  have f1: "final_scores ?s1 ''p1'' = [100, 0]"
    by (simp add: final_scores_def fx_scoring_state_sel fx_final_sel map_filter_simps)
  have p1: "findParticipantById ?s1 ''p1'' = Some (fx_participant ''p1'' ''u1'' (Some 5) None)"
    by (simp add: findParticipantById_def fx_scoring_state_sel fx_participant_sel)
  from participant_score_is_mean [of ?s0 "''p1''"] f0
  have 0: "recalculateParticipantScore ?s0 ''p1'' = ?s0" by simp
  from participant_score_is_mean [of ?s1 "''p1''"] f1 p1
  have 1: "map_option score (findParticipantById (recalculateParticipantScore ?s1 ''p1'') ''p1'')
             = Some (Some 50)"
    by simp
  from 0 1 show ?thesis by blast
qed

text \<open>
  C10 (as the code has it). \<open>updateExamStatistics\<close> hands the upsert the three scores and
  the counts \<open>totalParticipants\<close>, \<open>submittedCount\<close>, \<open>scoredCount\<close>, and no
  \<open>suspiciousCount\<close>; the upsert of the repository adds the time of the write. So an
  existing statistics row changes in those six columns and in \<open>updatedAt\<close>, keeps its
  \<open>suspiciousCount\<close> and its exam, and no other table changes. When no participant of
  the exam has a score, the whole state, and so every field of the row, is left as it was.
\<close>

theorem updateExamStatistics_keeps_suspiciousCount:
  "((\<forall>p\<in>set (examParticipants s). participant_examId p = examId \<longrightarrow> score p = None) \<longrightarrow>
      updateExamStatistics s examId now = s)
   \<and> (\<forall>r. getStatistics s examId = Some r \<longrightarrow>
        (\<exists>r'. getStatistics (updateExamStatistics s examId now) examId = Some r'
              \<and> suspiciousCount r' = suspiciousCount r \<and> stat_examId r' = stat_examId r))
   \<and> (\<forall>r x xs. getStatistics s examId = Some r
          \<and> participant_scores (listParticipants s examId) = x # xs \<longrightarrow>
        getStatistics (updateExamStatistics s examId now) examId
          = Some (r\<lparr> avgScore := Some (foldl (+) 0 (x # xs) / real (length (x # xs))),
                     maxScore := Some (Math_max x xs),
                     minScore := Some (Math_min x xs),
                     totalParticipants := Some (int (length (listParticipants s examId))),
                     submittedCount :=
                       Some (int (length (filter (\<lambda>p. submitTime p \<noteq> None)
                                            (listParticipants s examId)))),
                     scoredCount := Some (int (length (x # xs))),
                     stat_updatedAt := now \<rparr>))
   \<and> (updateExamStatistics s examId now)\<lparr>examStatistics := examStatistics s\<rparr> = s"
proof (intro conjI allI impI)
  assume "\<forall>p\<in>set (examParticipants s). participant_examId p = examId \<longrightarrow> score p = None"
  then show "updateExamStatistics s examId now = s" by (rule updateExamStatistics_unscored)
next
  fix r assume r: "getStatistics s examId = Some r"
  show "\<exists>r'. getStatistics (updateExamStatistics s examId now) examId = Some r'
              \<and> suspiciousCount r' = suspiciousCount r \<and> stat_examId r' = stat_examId r"
  proof (cases "participant_scores (listParticipants s examId)")
    case Nil
    then have "updateExamStatistics s examId now = s" by (simp add: updateExamStatistics_def Let_def)
    with r show ?thesis by simp
  next
    case (Cons x xs)
    from updateExamStatistics_row [OF r Cons, of now] show ?thesis
      by (simp add: apply_statistic_patch_def statistics_of_def keep_def)
  qed
next
  fix r x xs
  assume "getStatistics s examId = Some r
            \<and> participant_scores (listParticipants s examId) = x # xs"
  then have r: "getStatistics s examId = Some r"
    and sc: "participant_scores (listParticipants s examId) = x # xs" by blast+
  from updateExamStatistics_row [OF r sc, of now]
  show "getStatistics (updateExamStatistics s examId now) examId
          = Some (r\<lparr> avgScore := Some (foldl (+) 0 (x # xs) / real (length (x # xs))),
                     maxScore := Some (Math_max x xs),
                     minScore := Some (Math_min x xs),
                     totalParticipants := Some (int (length (listParticipants s examId))),
                     submittedCount :=
                       Some (int (length (filter (\<lambda>p. submitTime p \<noteq> None)
                                            (listParticipants s examId)))),
                     scoredCount := Some (int (length (x # xs))),
                     stat_updatedAt := now \<rparr>)"
    by (simp add: apply_statistic_patch_def statistics_of_def keep_def)
next
  show "(updateExamStatistics s examId now)\<lparr>examStatistics := examStatistics s\<rparr> = s"
    by (rule updateExamStatistics_tables)
qed

theorem updateExamStatistics_keeps_suspiciousCount_witness:
  "updateExamStatistics (fx_scoring_state [fx_participant ''p1'' ''u1'' (Some 5) None] [] []) ''e1'' 9
     = fx_scoring_state [fx_participant ''p1'' ''u1'' (Some 5) None] [] []
   \<and> (\<exists>r'. getStatistics
              (updateExamStatistics
                 (fx_scoring_state [fx_participant ''p1'' ''u1'' (Some 5) (Some 80),
                                    fx_participant ''p2'' ''u2'' None None] [] []) ''e1'' 9) ''e1''
              = Some r'
            \<and> suspiciousCount r' = Some 3 \<and> avgScore r' = Some 80
            \<and> totalParticipants r' = Some 2 \<and> submittedCount r' = Some 1)"
proof -
  let ?s0 = "fx_scoring_state [fx_participant ''p1'' ''u1'' (Some 5) None] [] []"
  let ?s1 = "fx_scoring_state [fx_participant ''p1'' ''u1'' (Some 5) (Some 80),
                               fx_participant ''p2'' ''u2'' None None] [] []"
  have none: "\<forall>p\<in>set (examParticipants ?s0). participant_examId p = ''e1'' \<longrightarrow> score p = None"
    by (simp add: fx_scoring_state_sel fx_participant_sel)
  have row: "getStatistics ?s1 ''e1'' = Some fx_statistic"
    by (simp add: getStatistics_def fx_scoring_state_sel fx_statistic_def)
  have ps: "listParticipants ?s1 ''e1'' = [fx_participant ''p1'' ''u1'' (Some 5) (Some 80),
                                           fx_participant ''p2'' ''u2'' None None]"
    by (simp add: listParticipants_def fx_scoring_state_sel fx_participant_sel)
  have sc: "participant_scores (listParticipants ?s1 ''e1'') = 80 # []"
    unfolding ps by (simp add: participant_scores_def map_filter_simps fx_participant_sel)
  from updateExamStatistics_keeps_suspiciousCount [of ?s0 "''e1''" 9] none
  have 0: "updateExamStatistics ?s0 ''e1'' 9 = ?s0" by blast
  from updateExamStatistics_keeps_suspiciousCount [of ?s1 "''e1''" 9] row sc
  have "getStatistics (updateExamStatistics ?s1 ''e1'' 9) ''e1''
          = Some (fx_statistic\<lparr> avgScore := Some (foldl (+) 0 (80 # []) / real (length (80 # ([]::real list)))),
                     maxScore := Some (Math_max 80 []),
                     minScore := Some (Math_min 80 []),
                     totalParticipants := Some (int (length (listParticipants ?s1 ''e1''))),
                     submittedCount :=
                       Some (int (length (filter (\<lambda>p. submitTime p \<noteq> None)
                                            (listParticipants ?s1 ''e1'')))),
                     scoredCount := Some (int (length (80 # ([]::real list)))),
                     stat_updatedAt := 9 \<rparr>)"
    by blast
  then have 1: "\<exists>r'. getStatistics (updateExamStatistics ?s1 ''e1'' 9) ''e1'' = Some r'
            \<and> suspiciousCount r' = Some 3 \<and> avgScore r' = Some 80
            \<and> totalParticipants r' = Some 2 \<and> submittedCount r' = Some 1"
    unfolding ps by (simp add: fx_statistic_def fx_participant_sel)
  from 0 1 show ?thesis by blast
qed

text \<open>
  The six columns are not the only ones written: the row's \<open>updatedAt\<close> moves from 2 to
  the time of the call.
\<close>

theorem updateExamStatistics_updatedAt_counterexample:
  "map_option stat_updatedAt
       (getStatistics
          (fx_scoring_state [fx_participant ''p1'' ''u1'' (Some 5) (Some 80),
                             fx_participant ''p2'' ''u2'' None None] [] []) ''e1'')
     = Some 2
   \<and> map_option stat_updatedAt
       (getStatistics
          (updateExamStatistics
             (fx_scoring_state [fx_participant ''p1'' ''u1'' (Some 5) (Some 80),
                                fx_participant ''p2'' ''u2'' None None] [] []) ''e1'' 9) ''e1'')
     = Some 9"
proof -
  let ?s1 = "fx_scoring_state [fx_participant ''p1'' ''u1'' (Some 5) (Some 80),
                               fx_participant ''p2'' ''u2'' None None] [] []"
  have row: "getStatistics ?s1 ''e1'' = Some fx_statistic"
    by (simp add: getStatistics_def fx_scoring_state_sel fx_statistic_def)
  have ps: "listParticipants ?s1 ''e1'' = [fx_participant ''p1'' ''u1'' (Some 5) (Some 80),
                                           fx_participant ''p2'' ''u2'' None None]"
    by (simp add: listParticipants_def fx_scoring_state_sel fx_participant_sel)
  have sc: "participant_scores (listParticipants ?s1 ''e1'') = 80 # []"
    unfolding ps by (simp add: participant_scores_def map_filter_simps fx_participant_sel)
  have before: "map_option stat_updatedAt (getStatistics ?s1 ''e1'') = Some 2"
    unfolding row by (simp add: fx_statistic_def)
  have after: "map_option stat_updatedAt (getStatistics (updateExamStatistics ?s1 ''e1'' 9) ''e1'')
                 = Some 9"
    unfolding updateExamStatistics_row [OF row sc] by (simp add: apply_statistic_patch_def)
  from before after show ?thesis by blast
qed

section \<open>Participation and ownership: the claims\<close>



text \<open>
  C5, at an input where the code departs from it. The ongoing exam links question \<open>q1\<close>
  only; question \<open>q2\<close> exists but is not linked. For the joined student, who has not
  submitted, \<open>submitAnswer\<close> on \<open>q2\<close> fails with a \<open>NotFoundError\<close>, while
  \<open>batchSubmitAnswers\<close> on the same input succeeds and stores an answer to \<open>q2\<close>.
\<close>

theorem batchSubmitAnswers_accepts_unlinked_question:
  "\<not> list_ex (\<lambda>q. eq_questionId q = ''q2'') (getExamQuestions fx_submit_state ''e1'')
   \<and> submitAnswer fx_submit_state ''e1'' ''u1'' (fx_input ''q2'') ''a9'' 7
       = Inl (NotFoundError ''Question not found in this exam'')
   \<and> batchSubmitAnswers fx_submit_state ''e1'' ''u1'' [fx_input ''q2''] (\<lambda>k. ''a9'') 7
       = Inr (fx_submit_state
                \<lparr>answers := [new_answer ''a9'' ''p1'' ''q2'' (pending_patch (fx_input ''q2'')) 7]\<rparr>,
              [Some (new_answer ''a9'' ''p1'' ''q2'' (pending_patch (fx_input ''q2'')) 7)])"
proof -
  let ?s = fx_submit_state
  have p: "findParticipant ?s ''e1'' ''u1'' = Some (fx_participant ''p1'' ''u1'' None None)"
    by (simp add: findParticipant_def fx_submit_state_def fx_participant_sel)
  have qs: "getExamQuestions ?s ''e1'' = [fx_link ''q1'']"
    by (simp add: getExamQuestions_def fx_submit_state_def fx_link_def)
  have inp: "in_questionId (fx_input ''q2'') = ''q2''" by (simp add: fx_input_def)
  have 1: "\<not> list_ex (\<lambda>q. eq_questionId q = ''q2'') (getExamQuestions ?s ''e1'')"
    unfolding qs by (simp add: fx_link_def)
  have 2: "submitAnswer ?s ''e1'' ''u1'' (fx_input ''q2'') ''a9'' 7
             = Inl (NotFoundError ''Question not found in this exam'')"
    unfolding submitAnswer_def p using 1 by (simp add: fx_participant_sel inp)
  have "answers ?s = []" by (simp add: fx_submit_state_def)
  then have 3: "upsertAnswer ?s ''p1'' ''q2'' (pending_patch (fx_input ''q2'')) ''a9'' 7
             = (?s\<lparr>answers := [new_answer ''a9'' ''p1'' ''q2'' (pending_patch (fx_input ''q2'')) 7]\<rparr>,
                Some (new_answer ''a9'' ''p1'' ''q2'' (pending_patch (fx_input ''q2'')) 7))"
    by (simp add: upsertAnswer_def Let_def)
  have 4: "batchSubmitAnswers ?s ''e1'' ''u1'' [fx_input ''q2''] (\<lambda>k. ''a9'') 7
       = Inr (?s\<lparr>answers := [new_answer ''a9'' ''p1'' ''q2'' (pending_patch (fx_input ''q2'')) 7]\<rparr>,
              [Some (new_answer ''a9'' ''p1'' ''q2'' (pending_patch (fx_input ''q2'')) 7)])"
    unfolding batchSubmitAnswers_def p
    by (simp add: fx_participant_sel inp 3 Let_def)
  from 1 2 4 show ?thesis by blast
qed

text \<open>
  C6 (as the code has it). When no row of the exam belongs to the teacher, the status
  transition, \<open>triggerScoring\<close> and \<open>getScoringStatus\<close> fail with \<open>NotFoundError "Exam"\<close>,
  the error of an exam that does not exist. \<open>overrideScore\<close> fails with
  \<open>NotFoundError "Answer"\<close> only when the answer does not exist; on an existing answer of
  that exam it fails with a \<open>ForbiddenError\<close>.
\<close>

theorem non_owner_is_rejected:
  assumes "\<forall>e\<in>set (exams s). exam_id e = examId \<longrightarrow> exam_teacherId e \<noteq> teacherId"
  shows "updateExamStatus s examId teacherId newStatus now = Inl (NotFoundError ''Exam'')
       \<and> triggerScoring s examId teacherId participantIds now = Inl (NotFoundError ''Exam'')
       \<and> getScoringStatus s examId teacherId = Inl (NotFoundError ''Exam'')
       \<and> (find (\<lambda>r. answer_id r = answerId) (answers s) = None \<longrightarrow>
            overrideScore s answerId teacherId v fb now = Inl (NotFoundError ''Answer''))
       \<and> (\<forall>a p exam. find (\<lambda>r. answer_id r = answerId) (answers s) = Some a
              \<and> findParticipantById s (answer_participantId a) = Some p
              \<and> participant_examId p = examId
              \<and> findExamById s examId = Some exam \<longrightarrow>
            overrideScore s answerId teacherId v fb now
              = Inl (ForbiddenError ''You do not have access to this answer''))"
proof (intro conjI allI impI)
  note none = not_owner_not_found [OF assms]
  show "updateExamStatus s examId teacherId newStatus now = Inl (NotFoundError ''Exam'')"
    by (simp add: updateExamStatus_def none)
  show "triggerScoring s examId teacherId participantIds now = Inl (NotFoundError ''Exam'')"
    by (simp add: triggerScoring_def none)
  show "getScoringStatus s examId teacherId = Inl (NotFoundError ''Exam'')"
    by (simp add: getScoringStatus_def none)
next
  assume "find (\<lambda>r. answer_id r = answerId) (answers s) = None"
  then show "overrideScore s answerId teacherId v fb now = Inl (NotFoundError ''Answer'')"
    by (simp add: overrideScore_def)
next
  fix a p exam
  assume h: "find (\<lambda>r. answer_id r = answerId) (answers s) = Some a
              \<and> findParticipantById s (answer_participantId a) = Some p
              \<and> participant_examId p = examId
              \<and> findExamById s examId = Some exam"
  then have e: "findExamById s (participant_examId p) = Some exam" by simp
  from h have "exam \<in> set (exams s) \<and> exam_id exam = examId"
    using find_pred_holds [of "\<lambda>e. exam_id e = examId" "exams s" exam]
    by (simp add: findExamById_def)
  with assms have "exam_teacherId exam \<noteq> teacherId" by blast
  with h e show "overrideScore s answerId teacherId v fb now
                   = Inl (ForbiddenError ''You do not have access to this answer'')"
    by (simp add: overrideScore_not_owner)
qed

theorem non_owner_is_rejected_witness:
  "updateExamStatus
       (fx_scoring_state [fx_participant ''p1'' ''u1'' (Some 5) None] [] [fx_final ''a1'' (Some 40)])
       ''e1'' ''t2'' FINISHED 9 = Inl (NotFoundError ''Exam'')
   \<and> getScoringStatus
       (fx_scoring_state [fx_participant ''p1'' ''u1'' (Some 5) None] [] [fx_final ''a1'' (Some 40)])
       ''e1'' ''t2'' = Inl (NotFoundError ''Exam'')
   \<and> overrideScore
       (fx_scoring_state [fx_participant ''p1'' ''u1'' (Some 5) None] [] [fx_final ''a1'' (Some 40)])
       ''a1'' ''t2'' 85 None 9 = Inl (ForbiddenError ''You do not have access to this answer'')"
proof -
  let ?s = "fx_scoring_state [fx_participant ''p1'' ''u1'' (Some 5) None] [] [fx_final ''a1'' (Some 40)]"
  have own: "\<forall>e\<in>set (exams ?s). exam_id e = ''e1'' \<longrightarrow> exam_teacherId e \<noteq> ''t2''"
    by (simp add: fx_scoring_state_sel fx_exam_sel)
  have a: "find (\<lambda>r. answer_id r = ''a1'') (answers ?s) = Some (fx_final ''a1'' (Some 40))"
    by (simp add: fx_scoring_state_sel fx_final_sel)
  have p: "findParticipantById ?s (answer_participantId (fx_final ''a1'' (Some 40)))
             = Some (fx_participant ''p1'' ''u1'' (Some 5) None)"
    by (simp add: findParticipantById_def fx_scoring_state_sel fx_final_sel fx_participant_sel)
  have e: "findExamById ?s ''e1'' = Some (fx_exam FINISHED)"
    by (simp add: findExamById_def fx_scoring_state_sel fx_exam_sel)
  from non_owner_is_rejected [OF own, of FINISHED 9 None "''a1''" 85 None] a p e
  show ?thesis by (simp add: fx_participant_sel)
qed

text \<open>
  A teacher who does not own the exam learns from \<open>overrideScore\<close> that the answer
  exists: the error is a \<open>ForbiddenError\<close>, not a \<open>NotFoundError\<close>.
\<close>

theorem overrideScore_forbidden_counterexample:
  "findExamByIdAndTeacher
       (fx_scoring_state [fx_participant ''p1'' ''u1'' (Some 5) None] [] [fx_final ''a1'' (Some 40)])
       ''e1'' ''t2'' = None
   \<and> overrideScore
       (fx_scoring_state [fx_participant ''p1'' ''u1'' (Some 5) None] [] [fx_final ''a1'' (Some 40)])
       ''a1'' ''t2'' 85 None 9 = Inl (ForbiddenError ''You do not have access to this answer'')"
  by (simp add: findExamByIdAndTeacher_def overrideScore_def findParticipantById_def
        findExamById_def fx_scoring_state_sel fx_exam_sel fx_final_sel fx_participant_sel)

section \<open>Essay scoring: the claim\<close>




end
